theory Spec2Isabelle
  imports Complex_Main
begin

section \<open>Numbers and series\<close>

text \<open>
  Python floats are modelled as reals; a NaN cell of a pandas object is \<open>None\<close>.
  A price series is the list of its closes, oldest first.  The model is of the
  program on price series whose closes are positive (a price point of the data
  model) and on a nonzero initial capital: there no division has a zero divisor,
  so numpy produces neither \<open>inf\<close> nor a NaN of its own, and the only NaN cells
  are those of a window that is not yet full, of a shifted column and of a date
  missing from a series.
\<close>

text \<open>\<^verbatim>\<open>round(x, n)\<close> of Python: to the nearest multiple of \<open>10^-n\<close>, ties to even.\<close>

definition round_half_even :: "real \<Rightarrow> int" where
  "round_half_even x =
     (let f = \<lfloor>x\<rfloor>; d = x - of_int f
      in if d < 1 / 2 then f else if 1 / 2 < d then f + 1
         else if even f then f else f + 1)"

definition py_round :: "real \<Rightarrow> nat \<Rightarrow> real" where
  "py_round x n = of_int (round_half_even (x * 10 ^ n)) / 10 ^ n"

text \<open>\<^verbatim>\<open>int(x)\<close> of Python on a float: truncation towards zero.\<close>

definition py_int :: "real \<Rightarrow> int" where
  "py_int x = (if 0 \<le> x then \<lfloor>x\<rfloor> else \<lceil>x\<rceil>)"

text \<open>
  \<^verbatim>\<open>s.rolling(window=w).mean()\<close> at row \<open>i\<close>: the mean of the \<open>w\<close> closes ending at
  \<open>i\<close>, NaN while fewer than \<open>w\<close> rows are available (and everywhere for \<open>w = 0\<close>).
\<close>

definition rolling_mean :: "nat \<Rightarrow> real list \<Rightarrow> nat \<Rightarrow> real option" where
  "rolling_mean w xs i =
     (if w = 0 \<or> i + 1 < w \<or> length xs \<le> i then None
      else Some (sum_list (take w (drop (i + 1 - w) xs)) / real w))"

text \<open>\<^verbatim>\<open>s.pct_change(periods=k)\<close> at row \<open>i\<close>: \<open>s[i] / s[i-k] - 1\<close>, NaN for the first \<open>k\<close> rows.\<close>

definition pct_change :: "nat \<Rightarrow> real list \<Rightarrow> nat \<Rightarrow> real option" where
  "pct_change k xs i =
     (if i < k \<or> length xs \<le> i then None else Some (xs ! i / xs ! (i - k) - 1))"

text \<open>Comparisons of a float with a possibly-NaN float: any comparison with NaN is false.\<close>

definition gt_nan :: "real \<Rightarrow> real option \<Rightarrow> bool" where
  "gt_nan x m = (case m of None \<Rightarrow> False | Some y \<Rightarrow> y < x)"

definition lt_nan :: "real \<Rightarrow> real option \<Rightarrow> bool" where
  "lt_nan x m = (case m of None \<Rightarrow> False | Some y \<Rightarrow> x < y)"

definition le_nan :: "real \<Rightarrow> real option \<Rightarrow> bool" where
  "le_nan x m = (case m of None \<Rightarrow> False | Some y \<Rightarrow> x \<le> y)"

definition ge_nan :: "real \<Rightarrow> real option \<Rightarrow> bool" where
  "ge_nan x m = (case m of None \<Rightarrow> False | Some y \<Rightarrow> y \<le> x)"

text \<open>Sample standard deviation (\<open>ddof = 1\<close>), as \<^verbatim>\<open>Series.std()\<close>.\<close>

definition mean :: "real list \<Rightarrow> real" where
  "mean xs = sum_list xs / real (length xs)"

definition sample_std :: "real list \<Rightarrow> real" where
  "sample_std xs =
     sqrt (sum_list (map (\<lambda>x. (x - mean xs)\<^sup>2) xs) / (real (length xs) - 1))"

text \<open>The last \<open>w\<close> entries of a series (all of it when it is shorter).\<close>

definition last_n :: "nat \<Rightarrow> 'a list \<Rightarrow> 'a list" where
  "last_n w xs = drop (length xs - w) xs"

datatype failure =
    Need_at_least_days nat   \<comment> \<open>the returned dict \<^verbatim>\<open>{"error": "Need at least N days of data"}\<close>\<close>
  | IndexError
  | KeyError
  | ZeroDivisionError

section \<open>soxl\_strategy.py: the dual-MA + momentum signal\<close>

definition MA_LONG :: nat where "MA_LONG = 200"
definition MA_SHORT :: nat where "MA_SHORT = 50"
definition ROC_PERIOD :: nat where "ROC_PERIOD = 20"
definition ROC_THRESHOLD :: real where "ROC_THRESHOLD = 0.02"
definition TICKER_INDEX_soxl :: string where "TICKER_INDEX_soxl = ''^SOX''"
definition TICKER_LONG_soxl :: string where "TICKER_LONG_soxl = ''SOXL''"
definition TICKER_SHORT_soxl :: string where "TICKER_SHORT_soxl = ''SOXS''"

text \<open>\<^verbatim>\<open>calculate_position_size(trend_strength, volatility, bullish)\<close>.\<close>

definition calculate_position_size :: "real \<Rightarrow> real \<Rightarrow> bool \<Rightarrow> real" where
  "calculate_position_size trend_strength volatility bullish =
     (let base = 1;
          trend_mult = min 1 (0.5 + \<bar>trend_strength\<bar> * 2);
          vol_mult = (if 0.50 < volatility then 0.5
                      else if 0.35 < volatility then 0.75
                      else 1);
          allocation = base * trend_mult * vol_mult
      in min 1 allocation)"

text \<open>\<^verbatim>\<open>get_market_regime(above_200, above_50, roc)\<close>.\<close>

definition get_market_regime :: "bool \<Rightarrow> bool \<Rightarrow> real \<Rightarrow> string" where
  "get_market_regime above_200 above_50 roc =
     (if above_200 \<and> above_50 then
        (if 0.05 < roc then ''STRONG_UPTREND''
         else if 0 < roc then ''UPTREND''
         else ''WEAKENING_UPTREND'')
      else if \<not> above_200 \<and> \<not> above_50 then
        (if roc < - 0.05 then ''STRONG_DOWNTREND''
         else if roc < 0 then ''DOWNTREND''
         else ''WEAKENING_DOWNTREND'')
      else ''TRANSITION'')"

text \<open>
  \<^verbatim>\<open>calculate_indicators(data)\<close> works on a copy of \<open>data\<close> and adds five columns.
  The frame is represented by its \<open>Close\<close> column; each function below is one
  added column, read at row \<open>i\<close>.
\<close>

definition SMA_200 :: "real list \<Rightarrow> nat \<Rightarrow> real option" where
  "SMA_200 closes i = rolling_mean MA_LONG closes i"

definition SMA_50 :: "real list \<Rightarrow> nat \<Rightarrow> real option" where
  "SMA_50 closes i = rolling_mean MA_SHORT closes i"

definition ROC :: "real list \<Rightarrow> nat \<Rightarrow> real option" where
  "ROC closes i = pct_change ROC_PERIOD closes i"

text \<open>The defined values of \<^verbatim>\<open>Close.pct_change()\<close>: rows \<open>1\<close> to the end.\<close>

definition daily_returns :: "real list \<Rightarrow> real list" where
  "daily_returns xs = map (\<lambda>i. xs ! (i + 1) / xs ! i - 1) [0..<length xs - 1]"

definition Volatility :: "real list \<Rightarrow> nat \<Rightarrow> real option" where
  "Volatility closes i =
     (if i < 20 \<or> length closes \<le> i then None
      else Some (sample_std (take 20 (drop (i - 20) (daily_returns closes))) * sqrt 252))"

definition Trend_Strength :: "real list \<Rightarrow> nat \<Rightarrow> real option" where
  "Trend_Strength closes i =
     (case SMA_200 closes i of None \<Rightarrow> None
      | Some m \<Rightarrow> if length closes \<le> i then None else Some ((closes ! i - m) / m))"

record signal_soxl =
  ticker_soxl :: string
  price_soxl :: real
  sma_200 :: real
  sma_50 :: real
  roc :: real
  volatility :: real
  trend_strength :: real
  above_200_ma :: bool
  above_50_ma :: bool
  signal_soxl :: string
  position_soxl :: string
  allocation_soxl :: real
  crossed_up_200 :: bool
  crossed_down_200 :: bool
  regime :: string

text \<open>
  The signal logic of \<^verbatim>\<open>get_signal\<close> (the \<^verbatim>\<open>if/elif/else\<close> on the last row's
  indicators): the signal, the instrument and the allocation before it is rounded
  for the returned dict.
\<close>

definition signal_logic :: "real \<Rightarrow> real \<Rightarrow> real \<Rightarrow> real \<Rightarrow> real \<Rightarrow> real \<Rightarrow> string \<times> string \<times> real" where
  "signal_logic price sma200 sma50 roc_v vol ts =
     (let above_200 = sma200 < price;
          above_50 = sma50 < price;
          below_200 = price < sma200;
          below_50 = price < sma50;
          strong_up_momentum = ROC_THRESHOLD < roc_v;
          strong_down_momentum = roc_v < - ROC_THRESHOLD
      in if above_200 \<and> above_50 \<and> strong_up_momentum then
           (''LONG'', TICKER_LONG_soxl, calculate_position_size ts vol True)
         else if below_200 \<and> below_50 \<and> strong_down_momentum then
           (''SHORT'', TICKER_SHORT_soxl, calculate_position_size \<bar>ts\<bar> vol False)
         else (''CASH'', ''CASH'', 0))"

text \<open>
  \<^verbatim>\<open>get_signal(data)\<close> of soxl\_strategy.py.  Past the length guard the last row has
  every indicator defined (200 rows cover the windows 200, 50, 20 and 21), so the
  last row's values are read as plain floats; the previous row's \<open>SMA_200\<close> is NaN
  when there are exactly 200 rows, and a comparison with NaN is false.  The date
  label of the last row is carried through unchanged and left out.
\<close>

definition get_signal_soxl :: "real list \<Rightarrow> failure + signal_soxl" where
  "get_signal_soxl closes =
     (if length closes < MA_LONG then Inl (Need_at_least_days MA_LONG)
      else
        let n = length closes;
            price = closes ! (n - 1);
            sma200 = mean (last_n MA_LONG closes);
            sma50 = mean (last_n MA_SHORT closes);
            roc_v = closes ! (n - 1) / closes ! (n - 1 - ROC_PERIOD) - 1;
            vol = sample_std (last_n 20 (daily_returns closes)) * sqrt 252;
            ts = (price - sma200) / sma200;
            above_200 = sma200 < price;
            above_50 = sma50 < price;
            (sig, pos, allocation) = signal_logic price sma200 sma50 roc_v vol ts;
            prev_above_200 = gt_nan (closes ! (n - 2)) (SMA_200 closes (n - 2));
            crossed_up = (above_200 \<and> \<not> prev_above_200);
            crossed_down = (\<not> above_200 \<and> prev_above_200)
        in Inr \<lparr> ticker_soxl = TICKER_INDEX_soxl,
                 price_soxl = py_round price 2,
                 sma_200 = py_round sma200 2,
                 sma_50 = py_round sma50 2,
                 roc = py_round (roc_v * 100) 2,
                 volatility = py_round (vol * 100) 2,
                 trend_strength = py_round (ts * 100) 2,
                 above_200_ma = above_200,
                 above_50_ma = above_50,
                 signal_soxl = sig,
                 position_soxl = pos,
                 allocation_soxl = py_round allocation 2,
                 crossed_up_200 = crossed_up,
                 crossed_down_200 = crossed_down,
                 regime = get_market_regime above_200 above_50 roc_v \<rparr>)"

section \<open>config.py and strategy.py: the single-MA signal\<close>

definition MA_PERIOD :: nat where "MA_PERIOD = 250"
definition TICKER_INDEX :: string where "TICKER_INDEX = ''^NDX''"
definition TICKER_LONG :: string where "TICKER_LONG = ''TQQQ''"
definition TICKER_SHORT :: string where "TICKER_SHORT = ''SQQQ''"
definition USE_SHORTS :: bool where "USE_SHORTS = False"

record signal =
  ticker :: string
  price :: real
  sma :: "real option"
  ma_period :: nat
  above_ma :: bool
  signal :: string
  position :: string
  allocation :: real
  crossed_up :: bool
  crossed_down :: bool
  distance_from_ma :: "real option"

text \<open>
  \<^verbatim>\<open>get_signal(data, ma_period)\<close> of strategy.py, on the \<open>Close\<close> column of \<open>data\<close>
  (the function works on \<^verbatim>\<open>data.copy()\<close>).  \<^verbatim>\<open>data.iloc[-1]\<close> and \<^verbatim>\<open>data.iloc[-2]\<close>
  raise IndexError on a frame of fewer than two rows; the moving average of a row
  with fewer than \<open>ma_period\<close> predecessors is NaN; the distance divides two Python
  floats, which raises on a zero divisor.
\<close>

definition get_signal :: "real list \<Rightarrow> nat \<Rightarrow> failure + signal" where
  "get_signal closes w =
     (if length closes < w then Inl (Need_at_least_days w)
      else if length closes < 2 then Inl IndexError
      else
        let n = length closes;
            current_price = closes ! (n - 1);
            current_sma = rolling_mean w closes (n - 1);
            prev_price = closes ! (n - 2);
            prev_sma = rolling_mean w closes (n - 2);
            above = gt_nan current_price current_sma;
            up = (gt_nan current_price current_sma \<and> le_nan prev_price prev_sma);
            down = (lt_nan current_price current_sma \<and> ge_nan prev_price prev_sma);
            (sig, pos, alloc) =
              (if above then (''LONG'', TICKER_LONG, 1) else (''CASH'', ''CASH'', 0))
        in if current_sma = Some 0 then Inl ZeroDivisionError
           else Inr \<lparr> ticker = TICKER_INDEX,
                      price = py_round current_price 2,
                      sma = map_option (\<lambda>m. py_round m 2) current_sma,
                      ma_period = w,
                      above_ma = above,
                      signal = sig,
                      position = pos,
                      allocation = alloc,
                      crossed_up = up,
                      crossed_down = down,
                      distance_from_ma =
                        map_option (\<lambda>m. py_round ((current_price - m) / m * 100) 2)
                          current_sma \<rparr>)"

section \<open>Frames and columns\<close>

text \<open>
  A \<open>Close\<close> column with its date index: one pair per row, the date as a day
  number, the cell \<open>None\<close> when it is NaN.  Date indexes are strictly increasing,
  and the column names of a frame are distinct.
\<close>

type_synonym series = "(nat \<times> real option) list"

text \<open>
  The column index of a frame is a plain \<^verbatim>\<open>Index\<close> of names or a two-level
  \<^verbatim>\<open>MultiIndex\<close> (what the price download returns); the cells are kept by column.
\<close>

datatype col_index = Index "string list" | MultiIndex "(string \<times> string) list"

record data_frame =
  columns :: col_index
  index :: "nat list"
  cols :: "real option list list"

text \<open>\<^verbatim>\<open>columns.get_level_values(0)\<close>, and the names a column is selected by.\<close>

definition get_level_values0 :: "col_index \<Rightarrow> col_index" where
  "get_level_values0 c = (case c of Index ns \<Rightarrow> Index ns | MultiIndex ps \<Rightarrow> Index (map fst ps))"

definition column_names :: "col_index \<Rightarrow> string list" where
  "column_names c = (case c of Index ns \<Rightarrow> ns | MultiIndex ps \<Rightarrow> map fst ps)"

text \<open>
  \<^verbatim>\<open>if isinstance(df.columns, pd.MultiIndex): df.columns = df.columns.get_level_values(0)\<close>:
  an assignment to the attribute of the caller's frame, so the frame after the
  statement is returned.
\<close>

definition flatten_columns :: "data_frame \<Rightarrow> data_frame" where
  "flatten_columns df =
     (case columns df of
        MultiIndex ps \<Rightarrow> df\<lparr>columns := get_level_values0 (columns df)\<rparr>
      | Index ns \<Rightarrow> df)"

text \<open>\<^verbatim>\<open>df[name]\<close>: the column with its index, KeyError when no column has the name.\<close>

definition getitem :: "data_frame \<Rightarrow> string \<Rightarrow> failure + series" where
  "getitem df name =
     (case map_of (zip (column_names (columns df)) (cols df)) name of
        None \<Rightarrow> Inl KeyError
      | Some c \<Rightarrow> Inr (zip (index df) c))"

text \<open>The cell of a series at a date; NaN when the series has no such date.\<close>

definition cell :: "series \<Rightarrow> nat \<Rightarrow> real option" where
  "cell s d = (case map_of s d of None \<Rightarrow> None | Some v \<Rightarrow> v)"

text \<open>
  \<^verbatim>\<open>pd.DataFrame({'a': s1, 'b': s2})\<close>: the rows are the union of the two date
  indexes in increasing order, a cell NaN where its series has no such date.
\<close>

definition align :: "series \<Rightarrow> series \<Rightarrow> (nat \<times> real option \<times> real option) list" where
  "align s1 s2 =
     map (\<lambda>d. (d, cell s1 d, cell s2 d)) (sort (remdups (map fst s1 @ map fst s2)))"

text \<open>\<^verbatim>\<open>.dropna()\<close> on a frame of two columns.\<close>

definition dropna2 :: "(nat \<times> real option \<times> real option) list \<Rightarrow> (nat \<times> real \<times> real) list" where
  "dropna2 rows =
     List.map_filter
       (\<lambda>(d, a, b). case (a, b) of (Some x, Some y) \<Rightarrow> Some (d, x, y) | _ \<Rightarrow> None) rows"

text \<open>\<^verbatim>\<open>s.shift(1)\<close>: every value one row later, NaN in the first row.\<close>

definition shift1 :: "'a list \<Rightarrow> 'a option list" where
  "shift1 xs = (case xs of [] \<Rightarrow> [] | _ # _ \<Rightarrow> None # map Some (butlast xs))"

text \<open>\<^verbatim>\<open>s.pct_change()\<close> as a column.\<close>

definition pct_change_col :: "real list \<Rightarrow> real option list" where
  "pct_change_col xs = map (pct_change 1 xs) [0..<length xs]"

text \<open>\<^verbatim>\<open>s.cumprod()\<close> and \<^verbatim>\<open>s.expanding().max()\<close>.\<close>

fun cumprod_from :: "real \<Rightarrow> real list \<Rightarrow> real list" where
  "cumprod_from acc [] = []"
| "cumprod_from acc (x # xs) = (acc * x) # cumprod_from (acc * x) xs"

definition cumprod :: "real list \<Rightarrow> real list" where
  "cumprod xs = cumprod_from 1 xs"

fun running_max_from :: "real \<Rightarrow> real list \<Rightarrow> real list" where
  "running_max_from m [] = []"
| "running_max_from m (x # xs) = max m x # running_max_from (max m x) xs"

definition expanding_max :: "real list \<Rightarrow> real list" where
  "expanding_max xs = (case xs of [] \<Rightarrow> [] | x # ys \<Rightarrow> x # running_max_from x ys)"

text \<open>\<^verbatim>\<open>(cond).sum()\<close>: the number of rows where a boolean column is true.\<close>

definition count_true :: "bool list \<Rightarrow> nat" where
  "count_true bs = length (filter (\<lambda>b. b) bs)"

section \<open>Metrics shared by backtest.py and soxl\_backtest.py\<close>

text \<open>
  The local variables of \<^verbatim>\<open>calculate_metrics\<close>, each as a function of the column
  it is computed from.  The two scripts compute them by the same expressions.
\<close>

definition total_return_of :: "real \<Rightarrow> real \<Rightarrow> real" where
  "total_return_of final ic = (final - ic) / ic"

definition years_of :: "nat \<Rightarrow> real" where
  "years_of n = real n / 252"

text \<open>\<^verbatim>\<open>(1 + total_return) ** (1 / years) - 1\<close>.\<close>

definition annual_return_of :: "real \<Rightarrow> real \<Rightarrow> real" where
  "annual_return_of tr yrs = (1 + tr) powr (1 / yrs) - 1"

text \<open>\<^verbatim>\<open>strategy_returns.std() * np.sqrt(252)\<close>: NaN on a single row.\<close>

definition annual_vol_of :: "real list \<Rightarrow> real option" where
  "annual_vol_of rs = (if length rs < 2 then None else Some (sample_std rs * sqrt 252))"

definition sharpe_of :: "real \<Rightarrow> real option \<Rightarrow> real" where
  "sharpe_of annual annual_vol =
     (case annual_vol of None \<Rightarrow> 0 | Some v \<Rightarrow> if 0 < v then annual / v else 0)"

text \<open>
  \<^verbatim>\<open>rolling_max = cumulative.expanding().max()\<close>,
  \<^verbatim>\<open>drawdowns = (cumulative - rolling_max) / rolling_max\<close>, \<^verbatim>\<open>drawdowns.min()\<close>.
\<close>

definition drawdowns_of :: "real list \<Rightarrow> real list" where
  "drawdowns_of cumulative =
     map2 (\<lambda>c m. (c - m) / m) cumulative (expanding_max cumulative)"

definition max_drawdown_of :: "real list \<Rightarrow> real" where
  "max_drawdown_of cumulative = Min (set (drawdowns_of cumulative))"

definition win_rate_of :: "real list \<Rightarrow> real" where
  "win_rate_of rs =
     (let winning_days = count_true (map (\<lambda>r. 0 < r) rs);
          total_days = count_true (map (\<lambda>r. r \<noteq> 0) rs)
      in if 0 < total_days then real winning_days / real total_days else 0)"

text \<open>
  \<^verbatim>\<open>(data['signal'] != data['signal'].shift(1)).sum()\<close>: the shifted column is NaN
  in the first row, and \<open>x != NaN\<close> is true.
\<close>

definition ne_shifted :: "int \<Rightarrow> int option \<Rightarrow> bool" where
  "ne_shifted x p = (case p of None \<Rightarrow> True | Some y \<Rightarrow> x \<noteq> y)"

definition trades_of :: "int list \<Rightarrow> nat" where
  "trades_of sigs = count_true (map2 ne_shifted sigs (shift1 sigs))"

section \<open>backtest.py: the single-MA backtest\<close>

text \<open>A row of \<open>combined\<close> once the signal column is there (the rows with a moving average).\<close>

record sig_row =
  date :: nat
  index_close :: real
  etf_close :: real
  sma_bt :: real
  above_ma_bt :: bool
  signal_bt :: int

text \<open>A row of the final \<open>combined\<close>, the \<open>data\<close> of the results.\<close>

record bt_row = sig_row +
  etf_return :: real
  strategy_return :: real
  buy_hold_return :: real
  strategy_cumulative :: real
  buy_hold_cumulative :: real
  strategy_value :: real
  buy_hold_value :: real

text \<open>
  The moving average on the index, \<^verbatim>\<open>dropna()\<close>, then \<open>above_ma\<close> and \<open>signal\<close>.
\<close>

definition signal_frame :: "(nat \<times> real \<times> real) list \<Rightarrow> nat \<Rightarrow> sig_row list" where
  "signal_frame combined w =
     List.map_filter
       (\<lambda>i. case rolling_mean w (map (\<lambda>(d, x, y). x) combined) i of
               None \<Rightarrow> None
             | Some m \<Rightarrow>
                 (case combined ! i of (d, x, y) \<Rightarrow>
                   Some \<lparr> date = d, index_close = x, etf_close = y, sma_bt = m,
                          above_ma_bt = (m < x),
                          signal_bt = (if m < x then 1 else 0) \<rparr>))
       [0..<length combined]"

text \<open>
  \<^verbatim>\<open>etf_return = etf_close.pct_change()\<close> and
  \<^verbatim>\<open>strategy_return = signal.shift(1) * etf_return\<close>, as columns beside the rows; a
  product with NaN is NaN.
\<close>

definition etf_return_col :: "sig_row list \<Rightarrow> real option list" where
  "etf_return_col rows = pct_change_col (map etf_close rows)"

definition strategy_return_col :: "sig_row list \<Rightarrow> real option list" where
  "strategy_return_col rows =
     map2 (\<lambda>s r. case (s, r) of (Some a, Some b) \<Rightarrow> Some (real_of_int a * b) | _ \<Rightarrow> None)
       (shift1 (map signal_bt rows)) (etf_return_col rows)"

text \<open>\<^verbatim>\<open>combined.dropna()\<close>: the rows whose two returns are not NaN.\<close>

definition dropna_returns :: "sig_row list \<Rightarrow> (sig_row \<times> real \<times> real) list" where
  "dropna_returns rows =
     List.map_filter
       (\<lambda>(r, e, s). case (e, s) of (Some x, Some y) \<Rightarrow> Some (r, x, y) | _ \<Rightarrow> None)
       (zip rows (zip (etf_return_col rows) (strategy_return_col rows)))"

text \<open>The cumulative products and the portfolio values, row by row.\<close>

definition final_frame :: "sig_row list \<Rightarrow> real \<Rightarrow> bt_row list" where
  "final_frame rows ic =
     (let kept = dropna_returns rows;
          s_cum = cumprod (map (\<lambda>(r, e, s). 1 + s) kept);
          b_cum = cumprod (map (\<lambda>(r, e, s). 1 + e) kept)
      in map (\<lambda>((r, e, s), sc, bc).
                sig_row.extend r
                  \<lparr> etf_return = e, strategy_return = s, buy_hold_return = e,
                    strategy_cumulative = sc, buy_hold_cumulative = bc,
                    strategy_value = ic * sc,
                    buy_hold_value = ic * bc \<rparr>)
           (zip kept (zip s_cum b_cum)))"

record 'row results =
  start_date :: nat
  end_date :: nat
  years :: real
  initial_capital :: real
  final_value :: real
  total_return :: real
  annual_return :: real
  annual_volatility :: "real option"
  sharpe_ratio :: real
  max_drawdown :: real
  win_rate :: real
  total_trades :: nat
  bh_final_value :: real
  bh_total_return :: real
  bh_annual_return :: real
  bh_max_drawdown :: real
  data :: "'row list"

text \<open>
  \<^verbatim>\<open>calculate_metrics(data, initial_capital)\<close> of backtest.py.  The first statement
  that touches a row is \<^verbatim>\<open>data['strategy_value'].iloc[-1]\<close>, which raises IndexError
  on an empty frame; the annualisation has no guard of its own.  The \<open>data\<close> entry
  is added by \<^verbatim>\<open>run_backtest\<close>.
\<close>

definition calculate_metrics :: "bt_row list \<Rightarrow> real \<Rightarrow> failure + bt_row results" where
  "calculate_metrics rows ic =
     (if rows = [] then Inl IndexError
      else
        let strategy_returns = map strategy_return rows;
            final = strategy_value (last rows);
            tot = total_return_of final ic;
            yrs = years_of (length rows);
            annual = annual_return_of tot yrs;
            annual_vol = annual_vol_of strategy_returns;
            sharpe = sharpe_of annual annual_vol;
            max_dd = max_drawdown_of (map strategy_cumulative rows);
            win = win_rate_of strategy_returns;
            trades = trades_of (map signal_bt rows);
            bh_final = buy_hold_value (last rows);
            bh_total = total_return_of bh_final ic;
            bh_annual = annual_return_of bh_total yrs;
            bh_max_dd = max_drawdown_of (map buy_hold_cumulative rows)
        in Inr \<lparr> start_date = date (hd rows),
                 end_date = date (last rows),
                 years = py_round yrs 2,
                 initial_capital = ic,
                 final_value = py_round final 2,
                 total_return = py_round (tot * 100) 2,
                 annual_return = py_round (annual * 100) 2,
                 annual_volatility = map_option (\<lambda>v. py_round (v * 100) 2) annual_vol,
                 sharpe_ratio = py_round sharpe 2,
                 max_drawdown = py_round (max_dd * 100) 2,
                 win_rate = py_round (win * 100) 2,
                 total_trades = trades,
                 bh_final_value = py_round bh_final 2,
                 bh_total_return = py_round (bh_total * 100) 2,
                 bh_annual_return = py_round (bh_annual * 100) 2,
                 bh_max_drawdown = py_round (bh_max_dd * 100) 2,
                 data = rows \<rparr>)"

text \<open>
  \<^verbatim>\<open>run_backtest(index_data, etf_data, ma_period, initial_capital)\<close> of backtest.py
  (the parameter \<open>use_leverage_decay\<close> is not read by the body).  The two frames
  are the caller's objects: the function returns them as they are after the call,
  beside the results or the exception.
\<close>

definition run_backtest ::
  "data_frame \<Rightarrow> data_frame \<Rightarrow> nat \<Rightarrow> real \<Rightarrow>
     data_frame \<times> data_frame \<times> (failure + bt_row results)" where
  "run_backtest index_data etf_data w ic =
     (let index_data' = flatten_columns index_data;
          etf_data' = flatten_columns etf_data
      in (index_data', etf_data',
          case getitem index_data' ''Close'' of
            Inl e \<Rightarrow> Inl e
          | Inr idx \<Rightarrow>
              (case getitem etf_data' ''Close'' of
                 Inl e \<Rightarrow> Inl e
               | Inr etf \<Rightarrow>
                   calculate_metrics
                     (final_frame (signal_frame (dropna2 (align idx etf)) w) ic) ic)))"

section \<open>soxl\_backtest.py: the dual-MA + momentum backtest\<close>

text \<open>
  The inputs are the \<open>Close\<close> columns the function copies out of its three frames
  (\<^verbatim>\<open>index_data['Close'].copy()\<close>); \<open>short_etf_data\<close> may be \<^verbatim>\<open>None\<close>.  The column
  \<open>short_close\<close> exists only when \<^verbatim>\<open>short_etf_data is not None and use_shorts\<close>; a
  row holds \<open>None\<close> for it when the frame has no such column.
\<close>

definition base_frame ::
  "series \<Rightarrow> series \<Rightarrow> series option \<Rightarrow> bool \<Rightarrow> (nat \<times> real \<times> real \<times> real option) list" where
  "base_frame idx lng short_etf_data use_shorts =
     (let df = align idx lng
      in case (if use_shorts then short_etf_data else None) of
           None \<Rightarrow> map (\<lambda>(d, x, y). (d, x, y, None)) (dropna2 df)
         | Some sh \<Rightarrow>
             List.map_filter
               (\<lambda>(d, a, b). case (a, b, cell sh d) of
                   (Some x, Some y, Some z) \<Rightarrow> Some (d, x, y, Some z)
                 | _ \<Rightarrow> None) df)"

record sig_row_soxl =
  date_soxl :: nat
  index_close_soxl :: real
  long_close :: real
  short_close :: "real option"
  sma_200_bt :: real
  sma_50_bt :: real
  roc_bt :: real
  above_200 :: bool
  above_50 :: bool
  strong_up :: bool
  strong_down :: bool
  position_bt :: int

record bt_row_soxl = sig_row_soxl +
  long_return :: real
  short_return :: real
  strategy_return_soxl :: real
  buy_hold_return_soxl :: real
  strategy_cumulative_soxl :: real
  buy_hold_cumulative_soxl :: real
  strategy_value_soxl :: real
  buy_hold_value_soxl :: real

text \<open>
  \<^verbatim>\<open>np.select(conditions, [1, -1 if use_shorts else 0], default=0)\<close>: the choice of
  the first condition that holds.
\<close>

definition select_position :: "bool \<Rightarrow> bool \<Rightarrow> bool \<Rightarrow> bool \<Rightarrow> bool \<Rightarrow> int" where
  "select_position a200 a50 up down use_shorts =
     (if a200 \<and> a50 \<and> up then 1
      else if \<not> a200 \<and> \<not> a50 \<and> down then (if use_shorts then - 1 else 0)
      else 0)"

text \<open>The three indicators, \<^verbatim>\<open>dropna()\<close>, then the signal columns and \<open>position\<close>.\<close>

definition signal_frame_soxl ::
  "(nat \<times> real \<times> real \<times> real option) list \<Rightarrow> bool \<Rightarrow> sig_row_soxl list" where
  "signal_frame_soxl df use_shorts =
     (let ic = map (\<lambda>(d, x, y, z). x) df
      in List.map_filter
           (\<lambda>i. case (rolling_mean MA_LONG ic i, rolling_mean MA_SHORT ic i,
                      pct_change ROC_PERIOD ic i) of
                   (Some m200, Some m50, Some r) \<Rightarrow>
                     (case df ! i of (d, x, y, z) \<Rightarrow>
                       Some \<lparr> date_soxl = d, index_close_soxl = x, long_close = y,
                              short_close = z, sma_200_bt = m200, sma_50_bt = m50,
                              roc_bt = r,
                              above_200 = (m200 < x), above_50 = (m50 < x),
                              strong_up = (ROC_THRESHOLD < r),
                              strong_down = (r < - ROC_THRESHOLD),
                              position_bt =
                                select_position (m200 < x) (m50 < x) (ROC_THRESHOLD < r)
                                  (r < - ROC_THRESHOLD) use_shorts \<rparr>)
                 | _ \<Rightarrow> None)
           [0..<length df])"

text \<open>
  \<^verbatim>\<open>long_return\<close>; \<^verbatim>\<open>short_return\<close> (the change of \<open>short_close\<close> when shorting is on
  and the column exists, the constant 0 otherwise); \<^verbatim>\<open>strategy_return\<close> by the nested
  \<^verbatim>\<open>np.where\<close> on \<^verbatim>\<open>position.shift(1)\<close>, where a comparison of NaN with 1 or -1 is
  false.
\<close>

definition long_return_col :: "sig_row_soxl list \<Rightarrow> real option list" where
  "long_return_col rows = pct_change_col (map long_close rows)"

definition short_return_col :: "sig_row_soxl list \<Rightarrow> bool \<Rightarrow> real option list" where
  "short_return_col rows has_short =
     (if has_short then
        map (\<lambda>i. if i < 1 then None
                 else (case (short_close (rows ! i), short_close (rows ! (i - 1))) of
                         (Some a, Some b) \<Rightarrow> Some (a / b - 1)
                       | _ \<Rightarrow> None))
          [0..<length rows]
      else replicate (length rows) (Some 0))"

definition strategy_return_col_soxl :: "sig_row_soxl list \<Rightarrow> bool \<Rightarrow> real option list" where
  "strategy_return_col_soxl rows has_short =
     map (\<lambda>(p, l, s). if p = Some 1 then l else if p = Some (- 1) then s else Some 0)
       (zip (shift1 (map position_bt rows))
          (zip (long_return_col rows) (short_return_col rows has_short)))"

definition dropna_returns_soxl ::
  "sig_row_soxl list \<Rightarrow> bool \<Rightarrow> (sig_row_soxl \<times> real \<times> real \<times> real) list" where
  "dropna_returns_soxl rows has_short =
     List.map_filter
       (\<lambda>(r, l, s, t). case (l, s, t) of
           (Some x, Some y, Some z) \<Rightarrow> Some (r, x, y, z)
         | _ \<Rightarrow> None)
       (zip rows (zip (long_return_col rows)
          (zip (short_return_col rows has_short) (strategy_return_col_soxl rows has_short))))"

definition final_frame_soxl :: "sig_row_soxl list \<Rightarrow> bool \<Rightarrow> real \<Rightarrow> bt_row_soxl list" where
  "final_frame_soxl rows has_short ic =
     (let kept = dropna_returns_soxl rows has_short;
          s_cum = cumprod (map (\<lambda>(r, l, s, t). 1 + t) kept);
          b_cum = cumprod (map (\<lambda>(r, l, s, t). 1 + l) kept)
      in map (\<lambda>((r, l, s, t), sc, bc).
                sig_row_soxl.extend r
                  \<lparr> long_return = l, short_return = s, strategy_return_soxl = t,
                    buy_hold_return_soxl = l,
                    strategy_cumulative_soxl = sc, buy_hold_cumulative_soxl = bc,
                    strategy_value_soxl = ic * sc,
                    buy_hold_value_soxl = ic * bc \<rparr>)
           (zip kept (zip s_cum b_cum)))"

record 'row results_soxl = "'row results" +
  use_shorts_flag :: bool
  time_long :: real
  time_short :: real
  time_cash :: real

text \<open>\<^verbatim>\<open>(data['position'] == v).mean()\<close>: the fraction of rows in a state.\<close>

definition time_in :: "int \<Rightarrow> int list \<Rightarrow> real" where
  "time_in v ps = real (count_true (map (\<lambda>p. p = v) ps)) / real (length ps)"

text \<open>
  \<^verbatim>\<open>calculate_metrics(data, initial_capital, use_shorts)\<close> of soxl\_backtest.py: as in
  backtest.py, with \<^verbatim>\<open>if years > 0 else 0\<close> on the two annualisations and the time
  spent in each state.  The read of the last \<open>strategy_value\<close> comes first here too.
\<close>

definition calculate_metrics_soxl ::
  "bt_row_soxl list \<Rightarrow> real \<Rightarrow> bool \<Rightarrow> failure + bt_row_soxl results_soxl" where
  "calculate_metrics_soxl rows ic use_shorts =
     (if rows = [] then Inl IndexError
      else
        let strategy_returns = map strategy_return_soxl rows;
            final = strategy_value_soxl (last rows);
            tot = total_return_of final ic;
            yrs = years_of (length rows);
            annual = (if 0 < yrs then annual_return_of tot yrs else 0);
            annual_vol = annual_vol_of strategy_returns;
            sharpe = sharpe_of annual annual_vol;
            max_dd = max_drawdown_of (map strategy_cumulative_soxl rows);
            win = win_rate_of strategy_returns;
            trades = trades_of (map position_bt rows);
            t_long = time_in 1 (map position_bt rows);
            t_short = time_in (- 1) (map position_bt rows);
            t_cash = time_in 0 (map position_bt rows);
            bh_final = buy_hold_value_soxl (last rows);
            bh_total = total_return_of bh_final ic;
            bh_annual = (if 0 < yrs then annual_return_of bh_total yrs else 0);
            bh_max_dd = max_drawdown_of (map buy_hold_cumulative_soxl rows)
        in Inr \<lparr> start_date = date_soxl (hd rows),
                 end_date = date_soxl (last rows),
                 years = py_round yrs 2,
                 initial_capital = ic,
                 final_value = py_round final 2,
                 total_return = py_round (tot * 100) 2,
                 annual_return = py_round (annual * 100) 2,
                 annual_volatility = map_option (\<lambda>v. py_round (v * 100) 2) annual_vol,
                 sharpe_ratio = py_round sharpe 2,
                 max_drawdown = py_round (max_dd * 100) 2,
                 win_rate = py_round (win * 100) 2,
                 total_trades = trades,
                 bh_final_value = py_round bh_final 2,
                 bh_total_return = py_round (bh_total * 100) 2,
                 bh_annual_return = py_round (bh_annual * 100) 2,
                 bh_max_drawdown = py_round (bh_max_dd * 100) 2,
                 data = rows,
                 use_shorts_flag = use_shorts,
                 time_long = py_round (t_long * 100) 1,
                 time_short = py_round (t_short * 100) 1,
                 time_cash = py_round (t_cash * 100) 1 \<rparr>)"

definition run_backtest_soxl ::
  "series \<Rightarrow> series \<Rightarrow> series option \<Rightarrow> real \<Rightarrow> bool \<Rightarrow> failure + bt_row_soxl results_soxl" where
  "run_backtest_soxl idx_close long_close_s short_etf_data ic use_shorts =
     (let has_short = (use_shorts \<and> short_etf_data \<noteq> None);
          df = base_frame idx_close long_close_s short_etf_data use_shorts;
          rows = signal_frame_soxl df use_shorts
      in calculate_metrics_soxl (final_frame_soxl rows has_short ic) ic use_shorts)"

section \<open>trade.py: orders from a signal and the current positions\<close>

text \<open>A position as \<^verbatim>\<open>get_current_positions\<close> reads it from the venue; \<open>qty\<close> is a Python int.\<close>

record holding =
  qty :: int
  market_value :: real
  avg_entry :: real
  unrealized_pl :: real

text \<open>One call of \<^verbatim>\<open>execute_trade(client, symbol, qty, side, dry_run)\<close>.\<close>

record order =
  symbol :: string
  order_qty :: int
  side :: string

text \<open>\<^verbatim>\<open>positions.get(ticker, {}).get('qty', 0)\<close>.\<close>

definition held :: "(string \<rightharpoonup> holding) \<Rightarrow> string \<Rightarrow> int" where
  "held positions t = (case positions t of None \<Rightarrow> 0 | Some h \<Rightarrow> qty h)"

text \<open>
  \<^verbatim>\<open>calculate_target_position(signal, portfolio_value, current_price)\<close>: both operands
  of the division are Python floats, so a zero price raises.
\<close>

definition calculate_target_position :: "signal \<Rightarrow> real \<Rightarrow> real \<Rightarrow> failure + int" where
  "calculate_target_position sg portfolio_value current_price =
     (let target_value = portfolio_value * allocation sg
      in if current_price = 0 then Inl ZeroDivisionError
         else Inr (py_int (target_value / current_price)))"

text \<open>\<^verbatim>\<open>float(ticker_data['Close'].iloc[-1])\<close> on the closes of the last five days.\<close>

definition latest_price :: "real list \<Rightarrow> failure + real" where
  "latest_price closes = (if closes = [] then Inl IndexError else Inr (last closes))"

text \<open>
  \<^verbatim>\<open>run_strategy\<close> from the point where the signal, the account and the positions are
  known: the result is the sequence of \<^verbatim>\<open>execute_trade\<close> calls, in order, or the
  exception that ends the run.  The price and the target are computed before the
  first call, so a run that fails there has made no call.  A signal dict with an
  \<open>error\<close> entry ends the run without a call; an exception of \<^verbatim>\<open>get_signal\<close> is the
  run's exception.  \<open>use_shorts\<close> is the configuration constant \<open>USE_SHORTS\<close>; the
  closes are what \<^verbatim>\<open>get_data(ticker, period="5d")\<close> returns for each instrument.
\<close>

definition run_strategy_with ::
  "bool \<Rightarrow> failure + signal \<Rightarrow> real \<Rightarrow> (string \<rightharpoonup> holding) \<Rightarrow> real list \<Rightarrow> real list
     \<Rightarrow> failure + order list" where
  "run_strategy_with use_shorts sig_result portfolio_value positions tqqq_closes sqqq_closes =
     (case sig_result of
        Inl (Need_at_least_days n) \<Rightarrow> Inr []
      | Inl e \<Rightarrow> Inl e
      | Inr sg \<Rightarrow>
          let target0 = (if signal sg = ''LONG'' then Some TICKER_LONG else None);
              target_ticker =
                (if signal sg = ''SHORT'' \<and> use_shorts then Some TICKER_SHORT else target0);
              current_tqqq = held positions TICKER_LONG;
              current_sqqq = held positions TICKER_SHORT
          in if target_ticker = Some TICKER_LONG then
               (case latest_price tqqq_closes of
                  Inl e \<Rightarrow> Inl e
                | Inr tqqq_price \<Rightarrow>
                    (case calculate_target_position sg portfolio_value tqqq_price of
                       Inl e \<Rightarrow> Inl e
                     | Inr target_shares \<Rightarrow>
                         let shares_to_trade = target_shares - current_tqqq
                         in Inr
                           ((if 0 < current_sqqq
                             then [\<lparr>symbol = TICKER_SHORT, order_qty = current_sqqq, side = ''sell''\<rparr>]
                             else []) @
                            (if 0 < shares_to_trade
                             then [\<lparr>symbol = TICKER_LONG, order_qty = shares_to_trade, side = ''buy''\<rparr>]
                             else if shares_to_trade < 0
                             then [\<lparr>symbol = TICKER_LONG, order_qty = \<bar>shares_to_trade\<bar>,
                                    side = ''sell''\<rparr>]
                             else []))))
             else if target_ticker = Some TICKER_SHORT then
               (case latest_price sqqq_closes of
                  Inl e \<Rightarrow> Inl e
                | Inr sqqq_price \<Rightarrow>
                    (case calculate_target_position sg portfolio_value sqqq_price of
                       Inl e \<Rightarrow> Inl e
                     | Inr target_shares \<Rightarrow>
                         let shares_to_trade = target_shares - current_sqqq
                         in Inr
                           ((if 0 < current_tqqq
                             then [\<lparr>symbol = TICKER_LONG, order_qty = current_tqqq, side = ''sell''\<rparr>]
                             else []) @
                            (if 0 < shares_to_trade
                             then [\<lparr>symbol = TICKER_SHORT, order_qty = shares_to_trade, side = ''buy''\<rparr>]
                             else []))))
             else
               Inr ((if 0 < current_tqqq
                     then [\<lparr>symbol = TICKER_LONG, order_qty = current_tqqq, side = ''sell''\<rparr>]
                     else []) @
                    (if 0 < current_sqqq
                     then [\<lparr>symbol = TICKER_SHORT, order_qty = current_sqqq, side = ''sell''\<rparr>]
                     else [])))"

definition run_strategy ::
  "failure + signal \<Rightarrow> real \<Rightarrow> (string \<rightharpoonup> holding) \<Rightarrow> real list \<Rightarrow> real list
     \<Rightarrow> failure + order list" where
  "run_strategy = run_strategy_with USE_SHORTS"

text \<open>
  The volatility multiplier of the three bands, as the specification words it:
  1.0 up to the moderate threshold, 0.75 up to the high threshold, 0.5 above it.
\<close>

definition volatility_multiplier :: "real \<Rightarrow> real" where
  "volatility_multiplier v = (if v \<le> 0.35 then 1 else if v \<le> 0.50 then 0.75 else 0.5)"

section \<open>Predicates and abbreviations used by the statements\<close>

text \<open>Every cell that is not NaN is a positive price.\<close>

definition positive_series :: "series \<Rightarrow> bool" where
  "positive_series s = (\<forall>(d, v)\<in>set s. case v of None \<Rightarrow> True | Some x \<Rightarrow> 0 < x)"

definition positive_closes :: "data_frame \<Rightarrow> bool" where
  "positive_closes df =
     (\<forall>c\<in>set (cols df). \<forall>v\<in>set c. case v of None \<Rightarrow> True | Some x \<Rightarrow> 0 < x)"

text \<open>
  The values of \<open>short_return\<close> and \<open>strategy_return\<close> of soxl\_backtest.py in row
  \<open>i > 0\<close> of a frame whose \<open>short_close\<close> column, when it exists, has no NaN.
\<close>

definition short_ret :: "sig_row_soxl list \<Rightarrow> bool \<Rightarrow> nat \<Rightarrow> real" where
  "short_ret rows hs i =
     (if hs then
        (case (short_close (rows ! i), short_close (rows ! (i - 1))) of
           (Some a, Some b) \<Rightarrow> a / b - 1
         | _ \<Rightarrow> 0)
      else 0)"

definition strat_ret :: "sig_row_soxl list \<Rightarrow> bool \<Rightarrow> nat \<Rightarrow> real" where
  "strat_ret rows hs i =
     (if position_bt (rows ! (i - 1)) = 1
      then long_close (rows ! i) / long_close (rows ! (i - 1)) - 1
      else if position_bt (rows ! (i - 1)) = - 1 then short_ret rows hs i
      else 0)"

section \<open>Sample inputs\<close>

text \<open>
  A \<open>Close\<close> column without NaN on consecutive days \<open>0, 1, 2, ...\<close>; two price
  downloads with the two-level column index; and an index series of 204 days that
  is flat at 100 and then closes at 150, 160, 50 and 40, with the closes of the
  long and the short instrument.  The rows named below are what the source
  computes on them, as the evaluation lemmas show.
\<close>

definition dated :: "real list \<Rightarrow> series" where
  "dated xs = zip [0..<length xs] (map Some xs)"

definition sample_index :: "real list" where
  "sample_index = replicate 200 100 @ [150, 160, 50, 40]"

definition sample_long :: "real list" where
  "sample_long = replicate 200 10 @ [20, 40, 20, 10]"

definition sample_short :: "real list" where
  "sample_short = replicate 200 10 @ [10, 10, 10, 20]"

definition sample_signal_rows_soxl :: "bool \<Rightarrow> (nat \<Rightarrow> real option) \<Rightarrow> sig_row_soxl list" where
  "sample_signal_rows_soxl us z =
     [\<lparr> date_soxl = 199, index_close_soxl = 100, long_close = 10, short_close = z 199,
         sma_200_bt = 100, sma_50_bt = 100, roc_bt = 0,
         above_200 = False, above_50 = False, strong_up = False, strong_down = False,
         position_bt = 0 \<rparr>,
      \<lparr> date_soxl = 200, index_close_soxl = 150, long_close = 20, short_close = z 200,
         sma_200_bt = 401 / 4, sma_50_bt = 101, roc_bt = 1 / 2,
         above_200 = True, above_50 = True, strong_up = True, strong_down = False,
         position_bt = 1 \<rparr>,
      \<lparr> date_soxl = 201, index_close_soxl = 160, long_close = 40, short_close = z 201,
         sma_200_bt = 2011 / 20, sma_50_bt = 511 / 5, roc_bt = 3 / 5,
         above_200 = True, above_50 = True, strong_up = True, strong_down = False,
         position_bt = 1 \<rparr>,
      \<lparr> date_soxl = 202, index_close_soxl = 50, long_close = 20, short_close = z 202,
         sma_200_bt = 1003 / 10, sma_50_bt = 506 / 5, roc_bt = - 1 / 2,
         above_200 = False, above_50 = False, strong_up = False, strong_down = True,
         position_bt = (if us then - 1 else 0) \<rparr>,
      \<lparr> date_soxl = 203, index_close_soxl = 40, long_close = 10, short_close = z 203,
         sma_200_bt = 100, sma_50_bt = 100, roc_bt = - 3 / 5,
         above_200 = False, above_50 = False, strong_up = False, strong_down = True,
         position_bt = (if us then - 1 else 0) \<rparr>]"

definition sample_rows :: "bt_row_soxl list" where
  "sample_rows =
     [\<lparr> date_soxl = 200, index_close_soxl = 150, long_close = 20, short_close = None,
         sma_200_bt = 401 / 4, sma_50_bt = 101, roc_bt = 1 / 2,
         above_200 = True, above_50 = True, strong_up = True, strong_down = False,
         position_bt = 1,
         long_return = 1, short_return = 0, strategy_return_soxl = 0,
         buy_hold_return_soxl = 1, strategy_cumulative_soxl = 1,
         buy_hold_cumulative_soxl = 2, strategy_value_soxl = 100,
         buy_hold_value_soxl = 200 \<rparr>,
      \<lparr> date_soxl = 201, index_close_soxl = 160, long_close = 40, short_close = None,
         sma_200_bt = 2011 / 20, sma_50_bt = 511 / 5, roc_bt = 3 / 5,
         above_200 = True, above_50 = True, strong_up = True, strong_down = False,
         position_bt = 1,
         long_return = 1, short_return = 0, strategy_return_soxl = 1,
         buy_hold_return_soxl = 1, strategy_cumulative_soxl = 2,
         buy_hold_cumulative_soxl = 4, strategy_value_soxl = 200,
         buy_hold_value_soxl = 400 \<rparr>,
      \<lparr> date_soxl = 202, index_close_soxl = 50, long_close = 20, short_close = None,
         sma_200_bt = 1003 / 10, sma_50_bt = 506 / 5, roc_bt = - 1 / 2,
         above_200 = False, above_50 = False, strong_up = False, strong_down = True,
         position_bt = 0,
         long_return = - 1 / 2, short_return = 0, strategy_return_soxl = - 1 / 2,
         buy_hold_return_soxl = - 1 / 2, strategy_cumulative_soxl = 1,
         buy_hold_cumulative_soxl = 2, strategy_value_soxl = 100,
         buy_hold_value_soxl = 200 \<rparr>,
      \<lparr> date_soxl = 203, index_close_soxl = 40, long_close = 10, short_close = None,
         sma_200_bt = 100, sma_50_bt = 100, roc_bt = - 3 / 5,
         above_200 = False, above_50 = False, strong_up = False, strong_down = True,
         position_bt = 0,
         long_return = - 1 / 2, short_return = 0, strategy_return_soxl = 0,
         buy_hold_return_soxl = - 1 / 2, strategy_cumulative_soxl = 1,
         buy_hold_cumulative_soxl = 1, strategy_value_soxl = 100,
         buy_hold_value_soxl = 100 \<rparr>]"

definition sample_index_data :: data_frame where
  "sample_index_data =
     \<lparr> columns = MultiIndex [(''Close'', ''^NDX'')], index = [0, 1, 2, 3, 4, 5, 6],
       cols = [[Some 5, Some 4, Some 3, Some 4, Some 6, Some 8, Some 10]] \<rparr>"

definition sample_etf_data :: data_frame where
  "sample_etf_data =
     \<lparr> columns = MultiIndex [(''Close'', ''TQQQ'')], index = [0, 1, 2, 3, 4, 5, 6],
       cols = [[Some 10, Some 10, Some 20, Some 10, Some 20, Some 10, Some 20]] \<rparr>"

definition sample_signal_rows :: "sig_row list" where
  "sample_signal_rows =
     [\<lparr> date = 1, index_close = 4, etf_close = 10, sma_bt = 9 / 2, above_ma_bt = False, signal_bt = 0 \<rparr>,
      \<lparr> date = 2, index_close = 3, etf_close = 20, sma_bt = 7 / 2, above_ma_bt = False, signal_bt = 0 \<rparr>,
      \<lparr> date = 3, index_close = 4, etf_close = 10, sma_bt = 7 / 2, above_ma_bt = True, signal_bt = 1 \<rparr>,
      \<lparr> date = 4, index_close = 6, etf_close = 20, sma_bt = 5, above_ma_bt = True, signal_bt = 1 \<rparr>,
      \<lparr> date = 5, index_close = 8, etf_close = 10, sma_bt = 7, above_ma_bt = True, signal_bt = 1 \<rparr>,
      \<lparr> date = 6, index_close = 10, etf_close = 20, sma_bt = 9, above_ma_bt = True, signal_bt = 1 \<rparr>]"

definition sample_data :: "bt_row list" where
  "sample_data =
     [\<lparr> date = 2, index_close = 3, etf_close = 20, sma_bt = 7 / 2, above_ma_bt = False, signal_bt = 0,
         etf_return = 1, strategy_return = 0, buy_hold_return = 1,
         strategy_cumulative = 1, buy_hold_cumulative = 2,
         strategy_value = 100, buy_hold_value = 200 \<rparr>,
      \<lparr> date = 3, index_close = 4, etf_close = 10, sma_bt = 7 / 2, above_ma_bt = True, signal_bt = 1,
         etf_return = - 1 / 2, strategy_return = 0, buy_hold_return = - 1 / 2,
         strategy_cumulative = 1, buy_hold_cumulative = 1,
         strategy_value = 100, buy_hold_value = 100 \<rparr>,
      \<lparr> date = 4, index_close = 6, etf_close = 20, sma_bt = 5, above_ma_bt = True, signal_bt = 1,
         etf_return = 1, strategy_return = 1, buy_hold_return = 1,
         strategy_cumulative = 2, buy_hold_cumulative = 2,
         strategy_value = 200, buy_hold_value = 200 \<rparr>,
      \<lparr> date = 5, index_close = 8, etf_close = 10, sma_bt = 7, above_ma_bt = True, signal_bt = 1,
         etf_return = - 1 / 2, strategy_return = - 1 / 2, buy_hold_return = - 1 / 2,
         strategy_cumulative = 1, buy_hold_cumulative = 1,
         strategy_value = 100, buy_hold_value = 100 \<rparr>,
      \<lparr> date = 6, index_close = 10, etf_close = 20, sma_bt = 9, above_ma_bt = True, signal_bt = 1,
         etf_return = 1, strategy_return = 1, buy_hold_return = 1,
         strategy_cumulative = 2, buy_hold_cumulative = 2,
         strategy_value = 200, buy_hold_value = 200 \<rparr>]"

section \<open>Helper facts: arithmetic, rounding, rolling windows\<close>

lemma sum_list_replicate_real: "sum_list (replicate n (x::real)) = real n * x"
  by (induction n) (simp_all add: algebra_simps)

lemma sum_list_pos_real:
  "xs \<noteq> [] \<Longrightarrow> \<forall>x\<in>set xs. 0 < (x::real) \<Longrightarrow> 0 < sum_list xs"
  by (induction xs) (auto intro: add_pos_nonneg sum_list_nonneg less_imp_le)

lemma rolling_mean_pos:
  assumes "\<forall>x\<in>set xs. 0 < x" and "rolling_mean w xs i = Some m"
  shows "0 < m"
proof -
  from assms(2) have w: "w \<noteq> 0" "w \<le> i + 1" "i < length xs"
    and m: "m = sum_list (take w (drop (i + 1 - w) xs)) / real w"
    by (auto simp: rolling_mean_def split: if_splits)
  let ?ys = "take w (drop (i + 1 - w) xs)"
  have "length ?ys = w" using w by simp
  then have ne: "?ys \<noteq> []" using w by auto
  have "set ?ys \<subseteq> set xs"
    by (meson set_take_subset set_drop_subset subset_trans)
  then have "\<forall>x\<in>set ?ys. 0 < x" using assms(1) by blast
  from sum_list_pos_real[OF ne this] show ?thesis using w m by simp
qed

lemma py_round_unit_range:
  assumes "0 \<le> x" "x \<le> 1"
  shows "0 \<le> py_round x 2 \<and> py_round x 2 \<le> 1"
proof -
  let ?y = "x * 10 ^ 2"
  have y: "0 \<le> ?y" "?y \<le> 100" using assms by simp_all
  have f0: "0 \<le> \<lfloor>?y\<rfloor>" using y(1) by simp
  have f1: "\<lfloor>?y\<rfloor> \<le> 100" using y(2) by (simp add: floor_le_iff)
  have lo: "0 \<le> round_half_even ?y"
    using f0 by (simp add: round_half_even_def Let_def)
  have hi: "round_half_even ?y \<le> 100"
  proof (cases "\<lfloor>?y\<rfloor> = 100")
    case True
    then have "?y = 100" using y(2) by linarith
    then show ?thesis by (simp add: round_half_even_def Let_def)
  next
    case False
    then have "\<lfloor>?y\<rfloor> \<le> 99" using f1 by linarith
    then show ?thesis by (simp add: round_half_even_def Let_def)
  qed
  have "0 \<le> (of_int (round_half_even ?y) :: real)" using lo by simp
  moreover have "(of_int (round_half_even ?y) :: real) \<le> 100" using hi by simp
  ultimately show ?thesis by (simp add: py_round_def)
qed

lemma latest_SMA_200:
  assumes "MA_LONG \<le> length closes"
  shows "SMA_200 closes (length closes - 1) = Some (mean (last_n MA_LONG closes))"
proof -
  from assms have "\<not> (MA_LONG = 0 \<or> length closes - 1 + 1 < MA_LONG \<or> length closes \<le> length closes - 1)"
    by (simp add: MA_LONG_def) linarith
  moreover from assms have "length closes - 1 + 1 - MA_LONG = length closes - MA_LONG"
    by (simp add: MA_LONG_def)
  moreover have "length (drop (length closes - MA_LONG) closes) = MA_LONG"
    using assms by simp
  ultimately show ?thesis
    by (simp add: SMA_200_def rolling_mean_def mean_def last_n_def del: length_drop)
qed

lemma latest_Trend_Strength:
  assumes "MA_LONG \<le> length closes"
  shows "Trend_Strength closes (length closes - 1) =
     Some ((closes ! (length closes - 1) - mean (last_n MA_LONG closes)) / mean (last_n MA_LONG closes))"
  using assms latest_SMA_200[OF assms] by (simp add: Trend_Strength_def MA_LONG_def)

lemma latest_Volatility:
  assumes "MA_LONG \<le> length closes"
  shows "Volatility closes (length closes - 1) =
     Some (sample_std (last_n 20 (daily_returns closes)) * sqrt 252)"
proof -
  from assms have c: "\<not> (length closes - 1 < 20 \<or> length closes \<le> length closes - 1)"
    by (simp add: MA_LONG_def) linarith
  have "length (daily_returns closes) = length closes - 1"
    by (simp add: daily_returns_def)
  then have "length (drop (length closes - 1 - 20) (daily_returns closes)) = 20"
    using assms by (simp add: MA_LONG_def)
  then have "take 20 (drop (length closes - 1 - 20) (daily_returns closes))
      = last_n 20 (daily_returns closes)"
    by (simp add: last_n_def \<open>length (daily_returns closes) = length closes - 1\<close> del: length_drop)
  with c show ?thesis by (simp add: Volatility_def)
qed

section \<open>The position size and the allocation of the dual-MA signal\<close>

lemma calculate_position_size_formula:
  "calculate_position_size t v b = min 1 (0.5 + 2 * \<bar>t\<bar>) * volatility_multiplier v"
  by (simp add: calculate_position_size_def volatility_multiplier_def Let_def min_def)

lemma calculate_position_size_range:
  "0 \<le> calculate_position_size t v b \<and> calculate_position_size t v b \<le> 1"
  by (simp add: calculate_position_size_def Let_def min_def)

lemma signal_logic_allocation:
  assumes "signal_logic p m200 m50 r v t = (sg, ps, al)"
  shows "(sg \<noteq> ''CASH'' \<longrightarrow> al = min 1 (0.5 + 2 * \<bar>t\<bar>) * volatility_multiplier v)
       \<and> (sg = ''CASH'' \<longrightarrow> al = 0) \<and> 0 \<le> al \<and> al \<le> 1"
  using assms calculate_position_size_range[of t v True]
    calculate_position_size_range[of "\<bar>t\<bar>" v False]
    calculate_position_size_formula[of t v True]
    calculate_position_size_formula[of "\<bar>t\<bar>" v False]
  by (auto simp: signal_logic_def Let_def split: if_splits)

lemma get_signal_soxl_allocation:
  assumes "get_signal_soxl closes = Inr s"
  shows "0 \<le> allocation_soxl s \<and> allocation_soxl s \<le> 1"
proof -
  from assms have len: "\<not> length closes < MA_LONG"
    by (auto simp: get_signal_soxl_def split: if_splits)
  obtain sg ps al where sl: "signal_logic (closes ! (length closes - 1)) (mean (last_n MA_LONG closes))
      (mean (last_n MA_SHORT closes))
      (closes ! (length closes - 1) / closes ! (length closes - 1 - ROC_PERIOD) - 1)
      (sample_std (last_n 20 (daily_returns closes)) * sqrt 252)
      ((closes ! (length closes - 1) - mean (last_n MA_LONG closes)) / mean (last_n MA_LONG closes))
      = (sg, ps, al)"
    by (metis prod_cases3)
  from assms len sl have "allocation_soxl s = py_round al 2"
    by (auto simp: get_signal_soxl_def Let_def)
  moreover from signal_logic_allocation[OF sl] have "0 \<le> al" "al \<le> 1" by simp_all
  ultimately show ?thesis using py_round_unit_range by simp
qed

lemma get_signal_soxl_reported_allocation:
  assumes "get_signal_soxl closes = Inr s" and "signal_soxl s \<noteq> ''CASH''"
  shows "\<exists>ts vol. Trend_Strength closes (length closes - 1) = Some ts
           \<and> Volatility closes (length closes - 1) = Some vol
           \<and> allocation_soxl s = py_round (min 1 (0.5 + 2 * \<bar>ts\<bar>) * volatility_multiplier vol) 2"
proof -
  from assms(1) have len: "MA_LONG \<le> length closes"
    by (auto simp: get_signal_soxl_def split: if_splits)
  let ?p = "closes ! (length closes - 1)"
  let ?m = "mean (last_n MA_LONG closes)"
  let ?ts = "(?p - ?m) / ?m"
  let ?vol = "sample_std (last_n 20 (daily_returns closes)) * sqrt 252"
  obtain sg ps al where sl: "signal_logic ?p ?m (mean (last_n MA_SHORT closes))
      (?p / closes ! (length closes - 1 - ROC_PERIOD) - 1) ?vol ?ts = (sg, ps, al)"
    by (metis prod_cases3)
  from assms(1) len sl have "allocation_soxl s = py_round al 2" "signal_soxl s = sg"
    by (auto simp: get_signal_soxl_def Let_def)
  with signal_logic_allocation[OF sl] assms(2)
  have "allocation_soxl s = py_round (min 1 (0.5 + 2 * \<bar>?ts\<bar>) * volatility_multiplier ?vol) 2"
    by simp
  with latest_Trend_Strength[OF len] latest_Volatility[OF len] show ?thesis by blast
qed

text \<open>A 200-row series that is flat at 100 and closes at 150: the signal is LONG.\<close>

lemma last_returns_jump:
  "last_n 20 (daily_returns (replicate 199 100 @ [150])) =
     [0, 0, 0, 0, 0, 0, 0, 0, 0, 0, 0, 0, 0, 0, 0, 0, 0, 0, 0, 1 / 2]"
  by (simp add: last_n_def daily_returns_def drop_map nth_append upt_rec)

lemma std_jump:
  "sample_std [0, 0, 0, 0, 0, 0, 0, 0, 0, 0, 0, 0, 0, 0, 0, 0, 0, 0, 0, 1 / 2] = sqrt (1 / 80)"
  by (simp add: sample_std_def mean_def power2_eq_square)

lemma vol_jump: "1 / 2 < sqrt (1 / 80) * sqrt 252"
proof -
  have "sqrt (1 / 80) * sqrt 252 = sqrt (252 / 80)"
    by (simp add: real_sqrt_mult[symmetric])
  moreover have "1 / 2 < sqrt (252 / 80 :: real)"
    by (rule real_less_rsqrt) (simp add: power2_eq_square)
  ultimately show ?thesis by simp
qed

lemma mean200_jump: "mean (last_n 200 (replicate 199 100 @ [150])) = 401 / 4"
  by (simp add: mean_def last_n_def sum_list_replicate_real)

lemma mean50_jump: "mean (last_n 50 (replicate 199 100 @ [150])) = 101"
  by (simp add: mean_def last_n_def sum_list_replicate_real)

lemma cps_jump: "calculate_position_size (199 / 401) (sqrt (1 / 80) * sqrt 252) True = 1 / 2"
  using vol_jump by (simp add: calculate_position_size_def Let_def)

lemma get_signal_soxl_jump:
  "get_signal_soxl (replicate 199 100 @ [150]) =
     Inr \<lparr> ticker_soxl = ''^SOX'', price_soxl = 150, sma_200 = 100.25, sma_50 = 101,
           roc = 50, volatility = py_round (sqrt (1 / 80) * sqrt 252 * 100) 2,
           trend_strength = 49.63,
           above_200_ma = True, above_50_ma = True, signal_soxl = ''LONG'',
           position_soxl = ''SOXL'', allocation_soxl = 0.5,
           crossed_up_200 = True, crossed_down_200 = False, regime = ''STRONG_UPTREND'' \<rparr>"
proof -
  have r: "py_round (19900 / 401) 2 = 49.63"
     "py_round 150 2 = 150" "py_round (401 / 4) 2 = 100.25" "py_round 101 2 = 101"
     "py_round 50 2 = 50" "py_round (1 / 2) 2 = 0.5"
    by (simp_all add: py_round_def round_half_even_def Let_def)
  show ?thesis
    by (simp add: get_signal_soxl_def Let_def mean200_jump mean50_jump last_returns_jump std_jump
        signal_logic_def ROC_THRESHOLD_def ROC_PERIOD_def nth_append MA_LONG_def MA_SHORT_def
        SMA_200_def rolling_mean_def gt_nan_def get_market_regime_def
        TICKER_INDEX_soxl_def TICKER_LONG_soxl_def cps_jump r)
qed

lemma signal_logic_example:
  "signal_logic 110 100 105 (5 / 100) (4 / 10) (1 / 10) = (''LONG'', ''SOXL'', 21 / 40)"
  by (simp add: signal_logic_def calculate_position_size_def Let_def ROC_THRESHOLD_def
      TICKER_LONG_soxl_def)

text \<open>
  C6.  The position size is \<open>min(1, 0.5 + 2|trend_strength|)\<close> times the volatility
  multiplier of the three bands (1 up to 0.35, 0.75 up to 0.50, 0.5 above), and lies
  in \<open>[0, 1]\<close>; the signal logic gives every LONG or SHORT signal that allocation (the
  SHORT branch passes \<open>|trend_strength|\<close>), and 0 to CASH.  The dict returned by
  \<^verbatim>\<open>get_signal\<close> reports the allocation rounded to two decimals, still in \<open>[0, 1]\<close>.
\<close>

theorem allocation_formula:
  "calculate_position_size t v b = min 1 (0.5 + 2 * \<bar>t\<bar>) * volatility_multiplier v
   \<and> 0 \<le> calculate_position_size t v b \<and> calculate_position_size t v b \<le> 1
   \<and> (signal_logic p m200 m50 r v t = (sg, ps, al) \<longrightarrow>
        (sg \<noteq> ''CASH'' \<longrightarrow> al = min 1 (0.5 + 2 * \<bar>t\<bar>) * volatility_multiplier v)
        \<and> 0 \<le> al \<and> al \<le> 1)
   \<and> (get_signal_soxl closes = Inr s \<longrightarrow>
        0 \<le> allocation_soxl s \<and> allocation_soxl s \<le> 1
        \<and> (signal_soxl s \<noteq> ''CASH'' \<longrightarrow>
             (\<exists>ts vol. Trend_Strength closes (length closes - 1) = Some ts
                \<and> Volatility closes (length closes - 1) = Some vol
                \<and> allocation_soxl s =
                    py_round (min 1 (0.5 + 2 * \<bar>ts\<bar>) * volatility_multiplier vol) 2)))"
  using calculate_position_size_formula[of t v b] calculate_position_size_range[of t v b]
    signal_logic_allocation[of p m200 m50 r v t sg ps al] get_signal_soxl_allocation[of closes s]
    get_signal_soxl_reported_allocation[of closes s]
  by blast

theorem allocation_formula_witness:
  "calculate_position_size (1 / 10) (4 / 10) True = 21 / 40
   \<and> signal_logic 110 100 105 (5 / 100) (4 / 10) (1 / 10) = (''LONG'', ''SOXL'', 21 / 40)
   \<and> (21 / 40 :: real) = min 1 (0.5 + 2 * \<bar>1 / 10\<bar>) * volatility_multiplier (4 / 10)
   \<and> signal_soxl (projr (get_signal_soxl (replicate 199 100 @ [150]))) = ''LONG''
   \<and> allocation_soxl (projr (get_signal_soxl (replicate 199 100 @ [150]))) = 1 / 2
   \<and> (\<exists>ts vol. Trend_Strength (replicate 199 100 @ [150]) 199 = Some ts
         \<and> Volatility (replicate 199 100 @ [150]) 199 = Some vol
         \<and> (1 / 2 :: real) = py_round (min 1 (0.5 + 2 * \<bar>ts\<bar>) * volatility_multiplier vol) 2)"
  using allocation_formula[of "1 / 10" "4 / 10" True 110 100 105 "5 / 100" "''LONG''" "''SOXL''"
      "21 / 40" "replicate 199 100 @ [150]" "projr (get_signal_soxl (replicate 199 100 @ [150]))"]
    signal_logic_example
  by (simp add: get_signal_soxl_jump volatility_multiplier_def)

section \<open>Crossover flags and the history guard of the signal generators\<close>

lemma get_signal_flags:
  "get_signal prices w = Inr s \<Longrightarrow>
      \<not> (crossed_up s \<and> crossed_down s) \<and> (crossed_up s \<longrightarrow> above_ma s)
      \<and> (crossed_down s \<longrightarrow> \<not> above_ma s)"
  by (auto simp: get_signal_def Let_def gt_nan_def lt_nan_def split: if_splits option.splits)

lemma get_signal_soxl_flags:
  "get_signal_soxl closes = Inr t \<Longrightarrow>
      \<not> (crossed_up_200 t \<and> crossed_down_200 t) \<and> (crossed_up_200 t \<longrightarrow> above_200_ma t)
      \<and> (crossed_down_200 t \<longrightarrow> \<not> above_200_ma t)"
  by (auto simp: get_signal_soxl_def Let_def split: if_splits prod.splits)

lemma get_signal_cross_up_example:
  "get_signal [5, 1, 9] 2 =
     Inr \<lparr> ticker = ''^NDX'', price = 9, sma = Some 5, ma_period = 2, above_ma = True,
           signal = ''LONG'', position = ''TQQQ'', allocation = 1, crossed_up = True,
           crossed_down = False, distance_from_ma = Some 80 \<rparr>"
  by (simp add: get_signal_def rolling_mean_def Let_def gt_nan_def lt_nan_def le_nan_def ge_nan_def
      TICKER_INDEX_def TICKER_LONG_def py_round_def round_half_even_def)

text \<open>
  C10.  The two crossover flags of a returned signal are never both true: the
  upward flag needs the price above the moving average, the downward flag needs it
  not above.
\<close>

theorem crossover_flags_exclusive:
  "(get_signal prices w = Inr s \<longrightarrow>
      \<not> (crossed_up s \<and> crossed_down s) \<and> (crossed_up s \<longrightarrow> above_ma s)
      \<and> (crossed_down s \<longrightarrow> \<not> above_ma s))
   \<and> (get_signal_soxl closes = Inr t \<longrightarrow>
      \<not> (crossed_up_200 t \<and> crossed_down_200 t) \<and> (crossed_up_200 t \<longrightarrow> above_200_ma t)
      \<and> (crossed_down_200 t \<longrightarrow> \<not> above_200_ma t))"
  using get_signal_flags[of prices w s] get_signal_soxl_flags[of closes t] by blast

theorem crossover_flags_exclusive_witness:
  "crossed_up (projr (get_signal [5, 1, 9] 2))
   \<and> \<not> crossed_down (projr (get_signal [5, 1, 9] 2))
   \<and> above_ma (projr (get_signal [5, 1, 9] 2))
   \<and> crossed_up_200 (projr (get_signal_soxl (replicate 199 100 @ [150])))
   \<and> \<not> crossed_down_200 (projr (get_signal_soxl (replicate 199 100 @ [150])))
   \<and> above_200_ma (projr (get_signal_soxl (replicate 199 100 @ [150])))"
  using crossover_flags_exclusive[of "[5, 1, 9]" 2 "projr (get_signal [5, 1, 9] 2)"
      "replicate 199 100 @ [150]" "projr (get_signal_soxl (replicate 199 100 @ [150]))"]
  by (simp add: get_signal_cross_up_example get_signal_soxl_jump)

lemma get_signal_returns:
  assumes "w \<le> length prices" "2 \<le> length prices" "\<forall>x\<in>set prices. 0 < x"
  shows "\<exists>s. get_signal prices w = Inr s"
proof -
  have "rolling_mean w prices (length prices - 1) \<noteq> Some 0"
    using rolling_mean_pos[of prices w "length prices - 1" 0] assms(3) by auto
  with assms show ?thesis
    by (simp add: get_signal_def Let_def split: prod.splits)
qed

text \<open>
  C7, as the code has it.  The guard of both signal generators is on the number of
  rows against the window: fewer rows than the window give the error dict; a series
  of at least the window length (two rows at least, positive closes) gives a signal,
  also when only its last row has a moving average.
\<close>

theorem insufficient_history_guard:
  "(length prices < w \<longrightarrow> get_signal prices w = Inl (Need_at_least_days w))
   \<and> (w \<le> length prices \<and> 2 \<le> length prices \<and> (\<forall>x\<in>set prices. 0 < x)
        \<longrightarrow> (\<exists>s. get_signal prices w = Inr s))
   \<and> (length closes < MA_LONG \<longrightarrow> get_signal_soxl closes = Inl (Need_at_least_days MA_LONG))
   \<and> (MA_LONG \<le> length closes \<longrightarrow> (\<exists>t. get_signal_soxl closes = Inr t))"
  using get_signal_returns[of w prices]
  by (auto simp: get_signal_def get_signal_soxl_def Let_def split: prod.splits)

theorem insufficient_history_guard_witness:
  "get_signal [100] 2 = Inl (Need_at_least_days 2)
   \<and> (\<exists>s. get_signal [100, 110] 2 = Inr s)
   \<and> get_signal_soxl [] = Inl (Need_at_least_days MA_LONG)
   \<and> (\<exists>t. get_signal_soxl (replicate 199 100 @ [150]) = Inr t)"
  using insufficient_history_guard[of "[100]" 2 "[]"]
    insufficient_history_guard[of "[100, 110]" 2 "replicate 199 100 @ [150]"]
  by (simp add: MA_LONG_def)

text \<open>
  The claim as stated fails on a series of exactly the window length: two rows and a
  window of two give one valid indicator row, and a signal is returned.  The
  previous row's moving average is NaN, so both crossover flags are false.
\<close>

theorem get_signal_window_length_rows:
  "get_signal [100, 110] 2 =
     Inr \<lparr> ticker = ''^NDX'', price = 110, sma = Some 105, ma_period = 2, above_ma = True,
           signal = ''LONG'', position = ''TQQQ'', allocation = 1, crossed_up = False,
           crossed_down = False, distance_from_ma = Some 4.76 \<rparr>"
  by (simp add: get_signal_def rolling_mean_def Let_def gt_nan_def lt_nan_def le_nan_def ge_nan_def
      TICKER_INDEX_def TICKER_LONG_def py_round_def round_half_even_def)

section \<open>Order sequencing of the trading run\<close>

lemma tickers_differ: "TICKER_LONG \<noteq> TICKER_SHORT"
  by (simp add: TICKER_LONG_def TICKER_SHORT_def)

lemma run_strategy_long_orders:
  assumes "signal sg = ''LONG''"
    and "run_strategy_with us (Inr sg) pv positions tq sq = Inr orders"
    and "0 < held positions TICKER_SHORT"
  shows "\<exists>rest. orders =
           \<lparr>symbol = TICKER_SHORT, order_qty = held positions TICKER_SHORT, side = ''sell''\<rparr> # rest
         \<and> (\<forall>x\<in>set rest. symbol x = TICKER_LONG)"
  using assms
  by (auto simp: run_strategy_with_def Let_def split: sum.splits if_splits)

lemma run_strategy_short_orders:
  assumes "signal sg = ''SHORT''" and "us"
    and "run_strategy_with us (Inr sg) pv positions tq sq = Inr orders"
    and "0 < held positions TICKER_LONG"
  shows "\<exists>rest. orders =
           \<lparr>symbol = TICKER_LONG, order_qty = held positions TICKER_LONG, side = ''sell''\<rparr> # rest
         \<and> (\<forall>x\<in>set rest. symbol x = TICKER_SHORT)"
  using assms tickers_differ
  by (auto simp: run_strategy_with_def Let_def split: sum.splits if_splits)

lemma run_strategy_long_returns:
  assumes "signal sg = ''LONG''" and "tq \<noteq> []" and "last tq \<noteq> 0"
  shows "\<exists>orders. run_strategy_with us (Inr sg) pv positions tq sq = Inr orders"
  using assms
  by (simp add: run_strategy_with_def Let_def latest_price_def calculate_target_position_def)

lemma run_strategy_short_returns:
  assumes "signal sg = ''SHORT''" and "us" and "sq \<noteq> []" and "last sq \<noteq> 0"
  shows "\<exists>orders. run_strategy_with us (Inr sg) pv positions tq sq = Inr orders"
  using assms tickers_differ
  by (simp add: run_strategy_with_def Let_def latest_price_def calculate_target_position_def)

text \<open>
  C2.  A holding is a number of shares the run bought earlier (it never sells
  short: every target is \<^verbatim>\<open>int(target_value / current_price)\<close> shares of an
  instrument it buys), so a holding that exists has a positive quantity.  When the
  target is the long instrument and the short instrument is held (or the target is
  the short instrument and the long one is held), the first call of
  \<^verbatim>\<open>execute_trade\<close> sells the whole opposing holding, and every later call is on
  the target instrument, which is a different symbol.  With a price to read and not
  zero the run returns its calls.
\<close>

theorem close_before_open:
  "TICKER_LONG \<noteq> TICKER_SHORT
   \<and> (signal sg = ''LONG'' \<and> 0 < held positions TICKER_SHORT
        \<and> run_strategy_with us (Inr sg) pv positions tq sq = Inr orders \<longrightarrow>
        (\<exists>rest. orders =
            \<lparr>symbol = TICKER_SHORT, order_qty = held positions TICKER_SHORT, side = ''sell''\<rparr> # rest
          \<and> (\<forall>x\<in>set rest. symbol x = TICKER_LONG)))
   \<and> (signal sg = ''SHORT'' \<and> us \<and> 0 < held positions TICKER_LONG
        \<and> run_strategy_with us (Inr sg) pv positions tq sq = Inr orders \<longrightarrow>
        (\<exists>rest. orders =
            \<lparr>symbol = TICKER_LONG, order_qty = held positions TICKER_LONG, side = ''sell''\<rparr> # rest
          \<and> (\<forall>x\<in>set rest. symbol x = TICKER_SHORT)))
   \<and> (signal sg = ''LONG'' \<and> tq \<noteq> [] \<and> last tq \<noteq> 0 \<longrightarrow>
        (\<exists>os. run_strategy_with us (Inr sg) pv positions tq sq = Inr os))
   \<and> (signal sg = ''SHORT'' \<and> us \<and> sq \<noteq> [] \<and> last sq \<noteq> 0 \<longrightarrow>
        (\<exists>os. run_strategy_with us (Inr sg) pv positions tq sq = Inr os))"
  using tickers_differ run_strategy_long_orders[of sg us pv positions tq sq orders]
    run_strategy_short_orders[of sg us pv positions tq sq orders]
    run_strategy_long_returns[of sg tq us pv positions sq]
    run_strategy_short_returns[of sg us sq pv positions tq]
  by blast

lemma run_strategy_long_example:
  "run_strategy_with False
       (Inr \<lparr> ticker = ''^NDX'', price = 110, sma = Some 105, ma_period = 2, above_ma = True,
           signal = ''LONG'', position = ''TQQQ'', allocation = 1, crossed_up = False,
           crossed_down = False, distance_from_ma = Some 4.76 \<rparr>)
       1000
       [''SQQQ'' \<mapsto> \<lparr>qty = 7, market_value = 70, avg_entry = 10, unrealized_pl = 0\<rparr>]
       [10] [] =
     Inr [\<lparr>symbol = ''SQQQ'', order_qty = 7, side = ''sell''\<rparr>,
          \<lparr>symbol = ''TQQQ'', order_qty = 100, side = ''buy''\<rparr>]"
  by (simp add: run_strategy_with_def Let_def latest_price_def calculate_target_position_def
      held_def TICKER_LONG_def TICKER_SHORT_def py_int_def)

lemma run_strategy_short_example:
  "run_strategy_with True
       (Inr \<lparr> ticker = ''^NDX'', price = 90, sma = Some 105, ma_period = 2, above_ma = False,
           signal = ''SHORT'', position = ''SQQQ'', allocation = 1, crossed_up = False,
           crossed_down = False, distance_from_ma = Some (- 14.29) \<rparr>)
       1000
       [''TQQQ'' \<mapsto> \<lparr>qty = 3, market_value = 30, avg_entry = 10, unrealized_pl = 0\<rparr>]
       [] [20] =
     Inr [\<lparr>symbol = ''TQQQ'', order_qty = 3, side = ''sell''\<rparr>,
          \<lparr>symbol = ''SQQQ'', order_qty = 50, side = ''buy''\<rparr>]"
  by (simp add: run_strategy_with_def Let_def latest_price_def calculate_target_position_def
      held_def TICKER_LONG_def TICKER_SHORT_def py_int_def)

theorem close_before_open_witness:
  "held [''SQQQ'' \<mapsto> \<lparr>qty = 7, market_value = 70, avg_entry = 10, unrealized_pl = 0\<rparr>]
       TICKER_SHORT = 7
   \<and> (\<exists>rest. [\<lparr>symbol = ''SQQQ'', order_qty = 7, side = ''sell''\<rparr>,
               \<lparr>symbol = ''TQQQ'', order_qty = 100, side = ''buy''\<rparr>] =
            \<lparr>symbol = TICKER_SHORT, order_qty = 7, side = ''sell''\<rparr> # rest
          \<and> (\<forall>x\<in>set rest. symbol x = TICKER_LONG))
   \<and> held [''TQQQ'' \<mapsto> \<lparr>qty = 3, market_value = 30, avg_entry = 10, unrealized_pl = 0\<rparr>]
       TICKER_LONG = 3
   \<and> (\<exists>rest. [\<lparr>symbol = ''TQQQ'', order_qty = 3, side = ''sell''\<rparr>,
               \<lparr>symbol = ''SQQQ'', order_qty = 50, side = ''buy''\<rparr>] =
            \<lparr>symbol = TICKER_LONG, order_qty = 3, side = ''sell''\<rparr> # rest
          \<and> (\<forall>x\<in>set rest. symbol x = TICKER_SHORT))"
  using close_before_open[of
      "\<lparr> ticker = ''^NDX'', price = 110, sma = Some 105, ma_period = 2, above_ma = True,
           signal = ''LONG'', position = ''TQQQ'', allocation = 1, crossed_up = False,
           crossed_down = False, distance_from_ma = Some 4.76 \<rparr>"
      "[''SQQQ'' \<mapsto> \<lparr>qty = 7, market_value = 70, avg_entry = 10, unrealized_pl = 0\<rparr>]"
      False 1000 "[10]" "[]"
      "[\<lparr>symbol = ''SQQQ'', order_qty = 7, side = ''sell''\<rparr>,
        \<lparr>symbol = ''TQQQ'', order_qty = 100, side = ''buy''\<rparr>]"]
    close_before_open[of
      "\<lparr> ticker = ''^NDX'', price = 90, sma = Some 105, ma_period = 2, above_ma = False,
           signal = ''SHORT'', position = ''SQQQ'', allocation = 1, crossed_up = False,
           crossed_down = False, distance_from_ma = Some (- 14.29) \<rparr>"
      "[''TQQQ'' \<mapsto> \<lparr>qty = 3, market_value = 30, avg_entry = 10, unrealized_pl = 0\<rparr>]"
      True 1000 "[]" "[20]"
      "[\<lparr>symbol = ''TQQQ'', order_qty = 3, side = ''sell''\<rparr>,
        \<lparr>symbol = ''SQQQ'', order_qty = 50, side = ''buy''\<rparr>]"]
    run_strategy_long_example run_strategy_short_example
  by (simp add: held_def TICKER_LONG_def TICKER_SHORT_def)

section \<open>Columns: shift, change, cumulative product, running maximum\<close>

lemma length_shift1 [simp]: "length (shift1 xs) = length xs"
  by (cases xs) (simp_all add: shift1_def)

lemma shift1_nth:
  assumes "i < length xs"
  shows "shift1 xs ! i = (if i = 0 then None else Some (xs ! (i - 1)))"
proof (cases xs)
  case Nil
  with assms show ?thesis by simp
next
  case (Cons a list)
  then have s: "shift1 xs = None # map Some (butlast xs)"
    by (simp add: shift1_def)
  show ?thesis
  proof (cases i)
    case 0
    with s show ?thesis by simp
  next
    case (Suc k)
    with assms have "k < length (butlast xs)" by simp
    with s Suc show ?thesis by (simp add: nth_butlast)
  qed
qed

lemma length_pct_change_col [simp]: "length (pct_change_col xs) = length xs"
  by (simp add: pct_change_col_def)

lemma pct_change_col_nth:
  "i < length xs \<Longrightarrow>
     pct_change_col xs ! i = (if i = 0 then None else Some (xs ! i / xs ! (i - 1) - 1))"
  by (simp add: pct_change_col_def pct_change_def)

lemma length_cumprod_from [simp]: "length (cumprod_from a xs) = length xs"
  by (induction xs arbitrary: a) simp_all

lemma length_cumprod [simp]: "length (cumprod xs) = length xs"
  by (simp add: cumprod_def)



lemma length_running_max_from [simp]: "length (running_max_from m xs) = length xs"
  by (induction xs arbitrary: m) simp_all

lemma length_expanding_max [simp]: "length (expanding_max xs) = length xs"
  by (cases xs) (simp_all add: expanding_max_def)








text \<open>The number of rows whose signal differs from the row before.\<close>

lemma trades_of_Cons:
  "trades_of (x # xs) = 1 + count_true (map2 (\<lambda>a b. a \<noteq> b) xs (butlast (x # xs)))"
proof -
  have "map2 ne_shifted xs (map Some (butlast (x # xs))) = map2 (\<lambda>a b. a \<noteq> b) xs (butlast (x # xs))"
    by (simp add: zip_map2 ne_shifted_def split_def)
  then show ?thesis
    by (simp add: trades_of_def shift1_def count_true_def ne_shifted_def)
qed

section \<open>The frames of backtest.py\<close>

lemma length_etf_return_col [simp]: "length (etf_return_col rows) = length rows"
  by (simp add: etf_return_col_def)

lemma etf_return_col_nth:
  "i < length rows \<Longrightarrow>
     etf_return_col rows ! i =
       (if i = 0 then None else Some (etf_close (rows ! i) / etf_close (rows ! (i - 1)) - 1))"
  by (simp add: etf_return_col_def pct_change_col_nth)

lemma length_strategy_return_col [simp]: "length (strategy_return_col rows) = length rows"
  by (simp add: strategy_return_col_def)

lemma strategy_return_col_nth:
  "i < length rows \<Longrightarrow>
     strategy_return_col rows ! i =
       (if i = 0 then None
        else Some (real_of_int (signal_bt (rows ! (i - 1)))
                    * (etf_close (rows ! i) / etf_close (rows ! (i - 1)) - 1)))"
  by (simp add: strategy_return_col_def shift1_nth etf_return_col_nth)

text \<open>A list filter that keeps exactly the rows after the first.\<close>

lemma map_filter_all_Some:
  "\<forall>x\<in>set xs. f x = Some (g x) \<Longrightarrow> List.map_filter f xs = map g xs"
  by (induction xs) (simp_all add: List.map_filter_simps)

lemma map_filter_upt_tail:
  assumes "0 < n \<longrightarrow> f 0 = None" and "\<forall>i. 0 < i \<and> i < n \<longrightarrow> f i = Some (g i)"
  shows "List.map_filter f [0..<n] = map g [1..<n]"
proof (cases "0 < n")
  case False
  then show ?thesis by simp
next
  case True
  then have e: "[0..<n] = 0 # [Suc 0..<n]" by (simp add: upt_conv_Cons)
  have t: "List.map_filter f [Suc 0..<n] = map g [Suc 0..<n]"
    using assms(2) by (intro map_filter_all_Some) simp
  have "List.map_filter f [0..<n] = List.map_filter f (0 # [Suc 0..<n])"
    by (simp only: e)
  also have "\<dots> = List.map_filter f [Suc 0..<n]"
    using assms(1) True by simp
  finally show ?thesis using t by simp
qed

lemma zip3_upt:
  assumes "length ys = length xs" and "length zs = length xs"
  shows "zip xs (zip ys zs) = map (\<lambda>i. (xs ! i, ys ! i, zs ! i)) [0..<length xs]"
  using assms by (intro nth_equalityI) simp_all

lemma dropna_returns_rows:
  "dropna_returns rows =
     map (\<lambda>i. (rows ! i,
                etf_close (rows ! i) / etf_close (rows ! (i - 1)) - 1,
                real_of_int (signal_bt (rows ! (i - 1)))
                  * (etf_close (rows ! i) / etf_close (rows ! (i - 1)) - 1)))
       [1..<length rows]"
proof -
  let ?f = "\<lambda>(r, e, s). case (e, s) of (Some x, Some y) \<Rightarrow> Some (r, x, y) | _ \<Rightarrow> None"
  let ?h = "\<lambda>i. (rows ! i, etf_return_col rows ! i, strategy_return_col rows ! i)"
  have "dropna_returns rows = List.map_filter (?f \<circ> ?h) [0..<length rows]"
    by (simp add: dropna_returns_def zip3_upt List.map_filter_def filter_map comp_def)
  also have "\<dots> = map (\<lambda>i. (rows ! i,
                etf_close (rows ! i) / etf_close (rows ! (i - 1)) - 1,
                real_of_int (signal_bt (rows ! (i - 1)))
                  * (etf_close (rows ! i) / etf_close (rows ! (i - 1)) - 1)))
       [1..<length rows]"
    by (rule map_filter_upt_tail)
      (auto simp: etf_return_col_nth strategy_return_col_nth)
  finally show ?thesis .
qed

lemma length_dropna_returns [simp]: "length (dropna_returns rows) = length rows - 1"
  by (simp add: dropna_returns_rows)

lemma length_final_frame [simp]: "length (final_frame rows ic) = length rows - 1"
  by (simp add: final_frame_def Let_def)

lemma final_frame_nth:
  assumes "i < length rows - 1"
  shows "sig_row.truncate (final_frame rows ic ! i) = sig_row.truncate (rows ! (i + 1))
       \<and> etf_return (final_frame rows ic ! i)
            = etf_close (rows ! (i + 1)) / etf_close (rows ! i) - 1
       \<and> strategy_return (final_frame rows ic ! i)
            = real_of_int (signal_bt (rows ! i))
                * (etf_close (rows ! (i + 1)) / etf_close (rows ! i) - 1)
       \<and> buy_hold_return (final_frame rows ic ! i) = etf_return (final_frame rows ic ! i)"
  using assms
  by (simp add: final_frame_def Let_def dropna_returns_rows sig_row.truncate_def sig_row.defs)


lemma final_frame_bh_cumulative:
  "map buy_hold_cumulative (final_frame rows ic)
     = cumprod (map (\<lambda>(r, e, s). 1 + e) (dropna_returns rows))"
  by (intro nth_equalityI) (simp_all add: final_frame_def Let_def case_prod_beta sig_row.defs)

lemma final_frame_signals:
  "map signal_bt (final_frame rows ic) = map signal_bt (tl rows)"
  by (intro nth_equalityI)
    (simp_all add: final_frame_def Let_def dropna_returns_rows nth_tl sig_row.defs)

lemma in_set_map_filter:
  "y \<in> set (List.map_filter f xs) \<longleftrightarrow> (\<exists>x\<in>set xs. f x = Some y)"
  by (induction xs) (auto split: option.splits)

text \<open>Where the cells of the aligned frame come from.\<close>

lemma cell_in_series: "cell s d = Some v \<Longrightarrow> (d, Some v) \<in> set s"
  by (auto simp: cell_def split: option.splits dest: map_of_SomeD)

lemma dropna2_align_cells:
  assumes "(d, x, y) \<in> set (dropna2 (align s1 s2))"
  shows "(d, Some x) \<in> set s1 \<and> (d, Some y) \<in> set s2"
proof -
  from assms have "(d, Some x, Some y) \<in> set (align s1 s2)"
    by (auto simp: dropna2_def in_set_map_filter split: option.splits)
  then show ?thesis by (auto simp: align_def dest: cell_in_series sym)
qed


lemma cols_flatten_columns [simp]: "cols (flatten_columns df) = cols df"
  by (simp add: flatten_columns_def split: col_index.splits)

lemma index_flatten_columns [simp]: "index (flatten_columns df) = index df"
  by (simp add: flatten_columns_def split: col_index.splits)





lemma calculate_metrics_Inr:
  assumes "calculate_metrics rows ic = Inr res"
  shows "rows \<noteq> [] \<and> data res = rows
       \<and> max_drawdown res = py_round (max_drawdown_of (map strategy_cumulative rows) * 100) 2
       \<and> total_trades res = trades_of (map signal_bt rows)"
  using assms by (auto simp: calculate_metrics_def Let_def split: if_splits)

lemma run_backtest_Inr:
  assumes "run_backtest index_data etf_data w ic = (i', e', Inr res)"
  shows "\<exists>idx etf. getitem (flatten_columns index_data) ''Close'' = Inr idx
          \<and> getitem (flatten_columns etf_data) ''Close'' = Inr etf
          \<and> calculate_metrics (final_frame (signal_frame (dropna2 (align idx etf)) w) ic) ic
               = Inr res"
  using assms by (auto simp: run_backtest_def Let_def split: sum.splits)


section \<open>The frames of soxl\_backtest.py\<close>

lemma length_long_return_col [simp]: "length (long_return_col rows) = length rows"
  by (simp add: long_return_col_def)

lemma length_short_return_col [simp]: "length (short_return_col rows hs) = length rows"
  by (simp add: short_return_col_def)

lemma length_strategy_return_col_soxl [simp]:
  "length (strategy_return_col_soxl rows hs) = length rows"
  by (simp add: strategy_return_col_soxl_def)

lemma long_return_col_nth:
  "i < length rows \<Longrightarrow>
     long_return_col rows ! i =
       (if i = 0 then None else Some (long_close (rows ! i) / long_close (rows ! (i - 1)) - 1))"
  by (simp add: long_return_col_def pct_change_col_nth)

lemma short_return_col_nth:
  assumes "i < length rows" and "hs \<longrightarrow> (\<forall>r\<in>set rows. short_close r \<noteq> None)"
  shows "short_return_col rows hs ! i =
           (if hs \<and> i = 0 then None else Some (short_ret rows hs i))"
proof (cases hs)
  case False
  with assms(1) show ?thesis by (simp add: short_return_col_def short_ret_def)
next
  case True
  with assms have "short_close (rows ! i) \<noteq> None" "short_close (rows ! (i - 1)) \<noteq> None"
    by simp_all
  with True assms(1) show ?thesis
    by (auto simp: short_return_col_def short_ret_def)
qed

lemma strategy_return_col_soxl_nth:
  assumes "i < length rows" and "0 < i" and "hs \<longrightarrow> (\<forall>r\<in>set rows. short_close r \<noteq> None)"
  shows "strategy_return_col_soxl rows hs ! i = Some (strat_ret rows hs i)"
  using assms
  by (simp add: strategy_return_col_soxl_def shift1_nth long_return_col_nth
      short_return_col_nth strat_ret_def)

lemma zip4_upt:
  assumes "length ys = length xs" and "length zs = length xs" and "length us = length xs"
  shows "zip xs (zip ys (zip zs us)) = map (\<lambda>i. (xs ! i, ys ! i, zs ! i, us ! i)) [0..<length xs]"
  using assms by (intro nth_equalityI) simp_all

lemma dropna_returns_soxl_rows:
  assumes "hs \<longrightarrow> (\<forall>r\<in>set rows. short_close r \<noteq> None)"
  shows "dropna_returns_soxl rows hs =
     map (\<lambda>i. (rows ! i,
                long_close (rows ! i) / long_close (rows ! (i - 1)) - 1,
                short_ret rows hs i, strat_ret rows hs i))
       [1..<length rows]"
proof -
  let ?f = "\<lambda>(r, l, s, t). case (l, s, t) of
           (Some x, Some y, Some z) \<Rightarrow> Some (r, x, y, z) | _ \<Rightarrow> None"
  let ?h = "\<lambda>i. (rows ! i, long_return_col rows ! i, short_return_col rows hs ! i,
                 strategy_return_col_soxl rows hs ! i)"
  have "dropna_returns_soxl rows hs = List.map_filter (?f \<circ> ?h) [0..<length rows]"
    by (simp add: dropna_returns_soxl_def zip4_upt List.map_filter_def filter_map comp_def)
  also have "\<dots> = map (\<lambda>i. (rows ! i,
                long_close (rows ! i) / long_close (rows ! (i - 1)) - 1,
                short_ret rows hs i, strat_ret rows hs i))
       [1..<length rows]"
    by (rule map_filter_upt_tail)
      (use assms in \<open>auto simp: long_return_col_nth short_return_col_nth
         strategy_return_col_soxl_nth\<close>)
  finally show ?thesis .
qed

lemma length_final_frame_soxl:
  assumes "hs \<longrightarrow> (\<forall>r\<in>set rows. short_close r \<noteq> None)"
  shows "length (final_frame_soxl rows hs ic) = length rows - 1"
  by (simp add: final_frame_soxl_def Let_def dropna_returns_soxl_rows[OF assms])


lemma final_frame_soxl_positions:
  assumes "hs \<longrightarrow> (\<forall>r\<in>set rows. short_close r \<noteq> None)"
  shows "map position_bt (final_frame_soxl rows hs ic) = map position_bt (tl rows)"
  by (intro nth_equalityI)
    (simp_all add: final_frame_soxl_def Let_def dropna_returns_soxl_rows[OF assms] nth_tl
      sig_row_soxl.defs)

lemma final_frame_soxl_nth:
  assumes "hs \<longrightarrow> (\<forall>r\<in>set rows. short_close r \<noteq> None)" and "i < length rows - 1"
  shows "sig_row_soxl.truncate (final_frame_soxl rows hs ic ! i) = sig_row_soxl.truncate (rows ! (i + 1))
       \<and> long_return (final_frame_soxl rows hs ic ! i)
            = long_close (rows ! (i + 1)) / long_close (rows ! i) - 1
       \<and> short_return (final_frame_soxl rows hs ic ! i) = short_ret rows hs (i + 1)
       \<and> strategy_return_soxl (final_frame_soxl rows hs ic ! i) = strat_ret rows hs (i + 1)"
  using assms(2)
  by (simp add: final_frame_soxl_def Let_def dropna_returns_soxl_rows[OF assms(1)]
      sig_row_soxl.truncate_def sig_row_soxl.defs)

lemma signal_frame_soxl_row:
  assumes "r \<in> set (signal_frame_soxl df us)"
  shows "(date_soxl r, index_close_soxl r, long_close r, short_close r) \<in> set df
       \<and> above_200 r = (sma_200_bt r < index_close_soxl r)
       \<and> above_50 r = (sma_50_bt r < index_close_soxl r)
       \<and> strong_up r = (ROC_THRESHOLD < roc_bt r)
       \<and> strong_down r = (roc_bt r < - ROC_THRESHOLD)
       \<and> position_bt r = select_position (above_200 r) (above_50 r) (strong_up r) (strong_down r) us"
proof -
  let ?ic = "map (\<lambda>(d, x, y, z). x) df"
  from assms obtain i where i: "i < length df"
    and f: "(case (rolling_mean MA_LONG ?ic i, rolling_mean MA_SHORT ?ic i,
                      pct_change ROC_PERIOD ?ic i) of
                   (Some m200, Some m50, Some r) \<Rightarrow>
                     (case df ! i of (d, x, y, z) \<Rightarrow>
                       Some \<lparr> date_soxl = d, index_close_soxl = x, long_close = y,
                              short_close = z, sma_200_bt = m200, sma_50_bt = m50,
                              roc_bt = r,
                              above_200 = (m200 < x), above_50 = (m50 < x),
                              strong_up = (ROC_THRESHOLD < r),
                              strong_down = (r < - ROC_THRESHOLD),
                              position_bt =
                                select_position (m200 < x) (m50 < x) (ROC_THRESHOLD < r)
                                  (r < - ROC_THRESHOLD) us \<rparr>)
                 | _ \<Rightarrow> None) = Some r"
    unfolding signal_frame_soxl_def Let_def in_set_map_filter by auto
  obtain d x y z where c: "df ! i = (d, x, y, z)" by (metis prod_cases4)
  from f c obtain m200 m50 rc where
    r: "r = \<lparr> date_soxl = d, index_close_soxl = x, long_close = y,
                              short_close = z, sma_200_bt = m200, sma_50_bt = m50,
                              roc_bt = rc,
                              above_200 = (m200 < x), above_50 = (m50 < x),
                              strong_up = (ROC_THRESHOLD < rc),
                              strong_down = (rc < - ROC_THRESHOLD),
                              position_bt =
                                select_position (m200 < x) (m50 < x) (ROC_THRESHOLD < rc)
                                  (rc < - ROC_THRESHOLD) us \<rparr>"
    by (auto split: option.splits)
  from i c have "(d, x, y, z) \<in> set df" by (metis nth_mem)
  with r show ?thesis by simp
qed

lemma base_frame_cells:
  assumes "(d, x, y, z) \<in> set (base_frame idx lng sh us)"
  shows "(d, Some y) \<in> set lng
       \<and> (if us \<and> sh \<noteq> None then \<exists>v s. z = Some v \<and> sh = Some s \<and> (d, Some v) \<in> set s
           else z = None)"
proof (cases "if us then sh else None")
  case None
  with assms have "(d, x, y) \<in> set (dropna2 (align idx lng))" and "z = None"
    by (auto simp: base_frame_def Let_def)
  with dropna2_align_cells[of d x y idx lng] None show ?thesis
    by (auto split: if_splits)
next
  case (Some s)
  with assms obtain v where ab: "(d, Some x, Some y) \<in> set (align idx lng)"
    and v: "cell s d = Some v" "z = Some v"
    by (auto simp: base_frame_def Let_def in_set_map_filter split: option.splits) metis
  from ab v have "cell lng d = Some y" by (auto simp: align_def)
  then have "(d, Some y) \<in> set lng" by (rule cell_in_series)
  moreover from v have "(d, Some v) \<in> set s" by (auto dest: cell_in_series)
  ultimately show ?thesis using Some v by (auto split: if_splits)
qed

lemma select_position_cases:
  "select_position a b u d us = 1 \<or> select_position a b u d us = 0
     \<or> (us \<and> select_position a b u d us = - 1)"
  by (simp add: select_position_def)

section \<open>Drawdown of the dual-MA backtest\<close>


lemma calculate_metrics_soxl_Inr:
  assumes "calculate_metrics_soxl rows ic us = Inr res"
  shows "rows \<noteq> [] \<and> data res = rows
       \<and> max_drawdown res = py_round (max_drawdown_of (map strategy_cumulative_soxl rows) * 100) 2
       \<and> total_trades res = trades_of (map position_bt rows)
       \<and> use_shorts_flag res = us"
  using assms by (auto simp: calculate_metrics_soxl_def Let_def split: if_splits)



section \<open>Evaluation on the sample inputs\<close>

lemma cell_dated: "i < length xs \<Longrightarrow> cell (dated xs) i = Some (xs ! i)"
proof -
  assume i: "i < length xs"
  have "map_of (zip [0..<length xs] (map Some xs)) ([0..<length xs] ! i) = Some (map Some xs ! i)"
    by (rule map_of_zip_nth) (use i in simp_all)
  with i show ?thesis by (simp add: cell_def dated_def)
qed

lemma sort_remdups_upt: "sort (remdups ([0..<n] @ [0..<n])) = [0..<n]"
proof -
  have "remdups ([0..<n] @ [0..<n]) = [0..<n]"
    by (simp add: remdups_append distinct_remdups_id)
  then show ?thesis by (simp add: sorted_sort_id)
qed

lemma align_dated:
  assumes "length ys = length xs"
  shows "align (dated xs) (dated ys) = map (\<lambda>i. (i, Some (xs ! i), Some (ys ! i))) [0..<length xs]"
proof -
  have "map fst (dated xs) = [0..<length xs]" "map fst (dated ys) = [0..<length xs]"
    using assms by (simp_all add: dated_def)
  then have "align (dated xs) (dated ys)
      = map (\<lambda>d. (d, cell (dated xs) d, cell (dated ys) d)) [0..<length xs]"
    by (simp add: align_def sort_remdups_upt)
  also have "\<dots> = map (\<lambda>i. (i, Some (xs ! i), Some (ys ! i))) [0..<length xs]"
    using assms by (intro map_cong) (simp_all add: cell_dated)
  finally show ?thesis .
qed

lemma dropna2_align_dated:
  assumes "length ys = length xs"
  shows "dropna2 (align (dated xs) (dated ys)) = map (\<lambda>i. (i, xs ! i, ys ! i)) [0..<length xs]"
  unfolding align_dated[OF assms] dropna2_def
  by (intro map_filter_all_Some[of _ _ "\<lambda>(d, a, b). (d, the a, the b)", THEN trans]) auto

lemma base_frame_dated_no_short:
  assumes "length ys = length xs" and "\<not> us \<or> sh = None"
  shows "base_frame (dated xs) (dated ys) sh us
           = map (\<lambda>i. (i, xs ! i, ys ! i, None)) [0..<length xs]"
proof -
  from assms(2) have "(if us then sh else None) = None" by auto
  then show ?thesis
    by (simp add: base_frame_def Let_def dropna2_align_dated[OF assms(1)])
qed

lemma base_frame_dated_short:
  assumes "length ys = length xs" and "length zs = length xs"
  shows "base_frame (dated xs) (dated ys) (Some (dated zs)) True
           = map (\<lambda>i. (i, xs ! i, ys ! i, Some (zs ! i))) [0..<length xs]"
proof -
  have "List.map_filter
               (\<lambda>(d, a, b). case (a, b, cell (dated zs) d) of
                   (Some x, Some y, Some z) \<Rightarrow> Some (d, x, y, Some z)
                 | _ \<Rightarrow> None) (map (\<lambda>i. (i, Some (xs ! i), Some (ys ! i))) [0..<length xs])
     = map (\<lambda>(d, a, b). (d, the a, the b, Some (zs ! d)))
         (map (\<lambda>i. (i, Some (xs ! i), Some (ys ! i))) [0..<length xs])"
    using assms by (intro map_filter_all_Some) (auto simp: cell_dated)
  then show ?thesis
    by (simp add: base_frame_def Let_def align_dated[OF assms(1)] comp_def)
qed

lemma map_filter_upt_skip:
  assumes "k \<le> n" and "\<forall>i<k. f i = None"
  shows "List.map_filter f [0..<n] = List.map_filter f [k..<n]"
proof -
  have "List.map_filter f [0..<k] = []"
    using assms(2) by (simp add: List.map_filter_def filter_empty_conv)
  moreover have "[0..<n] = [0..<k] @ [k..<n]"
    using assms(1) by (metis le_add_diff_inverse upt_add_eq_append zero_le)
  ultimately show ?thesis by (simp add: List.map_filter_def)
qed

lemma index_closes_of_frame:
  "map (\<lambda>(d, x, y, z). x) (map (\<lambda>i. (i, xs ! i, g i)) [0..<length xs]) = xs"
  by (intro nth_equalityI) simp_all

lemma sample_lengths [simp]:
  "length sample_index = 204" "length sample_long = 204" "length sample_short = 204"
  by (simp_all add: sample_index_def sample_long_def sample_short_def)

lemma sample_rolling_200:
  "rolling_mean 200 sample_index 199 = Some 100"
  "rolling_mean 200 sample_index 200 = Some (401 / 4)"
  "rolling_mean 200 sample_index 201 = Some (2011 / 20)"
  "rolling_mean 200 sample_index 202 = Some (1003 / 10)"
  "rolling_mean 200 sample_index 203 = Some 100"
  by (simp_all add: rolling_mean_def sample_index_def sum_list_replicate_real)

lemma sample_rolling_50:
  "rolling_mean 50 sample_index 199 = Some 100"
  "rolling_mean 50 sample_index 200 = Some 101"
  "rolling_mean 50 sample_index 201 = Some (511 / 5)"
  "rolling_mean 50 sample_index 202 = Some (506 / 5)"
  "rolling_mean 50 sample_index 203 = Some 100"
  by (simp_all add: rolling_mean_def sample_index_def sum_list_replicate_real)

lemma sample_roc:
  "pct_change 20 sample_index 199 = Some 0"
  "pct_change 20 sample_index 200 = Some (1 / 2)"
  "pct_change 20 sample_index 201 = Some (3 / 5)"
  "pct_change 20 sample_index 202 = Some (- 1 / 2)"
  "pct_change 20 sample_index 203 = Some (- 3 / 5)"
  by (simp_all add: pct_change_def sample_index_def nth_append)

lemma sample_nth:
  "sample_index ! 199 = 100" "sample_index ! 200 = 150" "sample_index ! 201 = 160"
  "sample_index ! 202 = 50" "sample_index ! 203 = 40"
  "sample_long ! 199 = 10" "sample_long ! 200 = 20" "sample_long ! 201 = 40"
  "sample_long ! 202 = 20" "sample_long ! 203 = 10"
  "sample_short ! 199 = 10" "sample_short ! 200 = 10" "sample_short ! 201 = 10"
  "sample_short ! 202 = 10" "sample_short ! 203 = 20"
  by (simp_all add: sample_index_def sample_long_def sample_short_def nth_append)

lemma sample_prefix_None:
  "i < 199 \<Longrightarrow> rolling_mean MA_LONG sample_index i = None"
  by (simp add: rolling_mean_def MA_LONG_def)

lemma signal_frame_soxl_sample:
  "signal_frame_soxl (map (\<lambda>i. (i, sample_index ! i, sample_long ! i, z i)) [0..<length sample_index]) us
   = sample_signal_rows_soxl us z"
proof -
  let ?df = "map (\<lambda>i. (i, sample_index ! i, sample_long ! i, z i)) [0..<length sample_index]"
  let ?f = "\<lambda>i. case (rolling_mean MA_LONG sample_index i, rolling_mean MA_SHORT sample_index i,
                      pct_change ROC_PERIOD sample_index i) of
                   (Some m200, Some m50, Some r) \<Rightarrow>
                     (case ?df ! i of (d, x, y, z) \<Rightarrow>
                       Some \<lparr> date_soxl = d, index_close_soxl = x, long_close = y,
                              short_close = z, sma_200_bt = m200, sma_50_bt = m50,
                              roc_bt = r,
                              above_200 = (m200 < x), above_50 = (m50 < x),
                              strong_up = (ROC_THRESHOLD < r),
                              strong_down = (r < - ROC_THRESHOLD),
                              position_bt =
                                select_position (m200 < x) (m50 < x) (ROC_THRESHOLD < r)
                                  (r < - ROC_THRESHOLD) us \<rparr>)
                 | _ \<Rightarrow> None"
  have ic: "map (\<lambda>(d, x, y, z). x) ?df = sample_index"
    by (rule index_closes_of_frame)
  have "signal_frame_soxl ?df us = List.map_filter ?f [0..<204]"
    unfolding signal_frame_soxl_def Let_def ic by simp
  also have "\<dots> = List.map_filter ?f [199..<204]"
    by (rule map_filter_upt_skip) (simp_all add: sample_prefix_None)
  also have "[199..<204] = [199, 200, 201, 202, 203::nat]"
    by (simp add: upt_rec)
  finally show ?thesis
    by (simp add: MA_LONG_def MA_SHORT_def ROC_PERIOD_def ROC_THRESHOLD_def
        sample_rolling_200 sample_rolling_50 sample_roc sample_nth select_position_def
        sample_signal_rows_soxl_def)
qed

lemma sample_base_frame:
  "base_frame (dated sample_index) (dated sample_long) None False
      = map (\<lambda>i. (i, sample_index ! i, sample_long ! i, None)) [0..<length sample_index]"
  by (rule base_frame_dated_no_short) simp_all

lemma sample_base_frame_short:
  "base_frame (dated sample_index) (dated sample_long) (Some (dated sample_short)) True
      = map (\<lambda>i. (i, sample_index ! i, sample_long ! i, Some (sample_short ! i)))
          [0..<length sample_index]"
  by (rule base_frame_dated_short) simp_all

lemma sample_final_frame_soxl:
  "final_frame_soxl (sample_signal_rows_soxl False (\<lambda>i. None)) False 100 = sample_rows"
  by (simp add: final_frame_soxl_def dropna_returns_soxl_def long_return_col_def
        short_return_col_def strategy_return_col_soxl_def pct_change_col_def pct_change_def
        shift1_def cumprod_def sample_rows_def sample_signal_rows_soxl_def
        sig_row_soxl.defs bt_row_soxl.defs upt_rec)

lemma run_backtest_soxl_sample:
  "run_backtest_soxl (dated sample_index) (dated sample_long) None 100 False
     = calculate_metrics_soxl sample_rows 100 False"
  by (simp only: run_backtest_soxl_def Let_def sample_base_frame signal_frame_soxl_sample
      sample_final_frame_soxl simp_thms not_None_eq)

lemma sample_rows_metrics:
  "sample_rows \<noteq> []"
  "max_drawdown_of (map strategy_cumulative_soxl sample_rows) = - 1 / 2"
  "trades_of (map position_bt sample_rows) = 2"
  by (simp_all add: sample_rows_def max_drawdown_of_def drawdowns_of_def expanding_max_def
      trades_of_def shift1_def ne_shifted_def count_true_def)

lemma sample_getitem:
  "getitem (flatten_columns sample_index_data) ''Close''
     = Inr [(0, Some 5), (1, Some 4), (2, Some 3), (3, Some 4), (4, Some 6), (5, Some 8), (6, Some 10)]"
  "getitem (flatten_columns sample_etf_data) ''Close''
     = Inr [(0, Some 10), (1, Some 10), (2, Some 20), (3, Some 10), (4, Some 20), (5, Some 10),
            (6, Some 20)]"
  by (simp_all add: getitem_def flatten_columns_def get_level_values0_def column_names_def
      sample_index_data_def sample_etf_data_def)

lemma sample_combined:
  "dropna2 (align
      [(0, Some 5), (1, Some 4), (2, Some 3), (3, Some 4), (4, Some 6), (5, Some 8), (6, Some 10)]
      [(0, Some 10), (1, Some 10), (2, Some 20), (3, Some 10), (4, Some 20), (5, Some 10),
       (6, Some 20)])
   = [(0, 5, 10), (1, 4, 10), (2, 3, 20), (3, 4, 10), (4, 6, 20), (5, 8, 10), (6, 10, 20)]"
  by (simp add: align_def dropna2_def cell_def)

lemma sample_signal_frame:
  "signal_frame [(0, 5, 10), (1, 4, 10), (2, 3, 20), (3, 4, 10), (4, 6, 20), (5, 8, 10), (6, 10, 20)] 2
     = sample_signal_rows"
  by (simp add: signal_frame_def rolling_mean_def sample_signal_rows_def upt_rec)

lemma sample_final_frame: "final_frame sample_signal_rows 100 = sample_data"
  by (simp add: final_frame_def dropna_returns_def etf_return_col_def strategy_return_col_def
      pct_change_col_def pct_change_def shift1_def cumprod_def sample_signal_rows_def
      sample_data_def sig_row.defs bt_row.defs upt_rec)

lemma run_backtest_sample:
  "run_backtest sample_index_data sample_etf_data 2 100
     = (flatten_columns sample_index_data, flatten_columns sample_etf_data,
        calculate_metrics sample_data 100)"
  by (simp only: run_backtest_def Let_def sample_getitem sum.case sample_combined
      sample_signal_frame sample_final_frame)

lemma sample_data_metrics:
  "sample_data \<noteq> []"
  "trades_of (map signal_bt sample_data) = 2"
  "max_drawdown_of (map strategy_cumulative sample_data) = - 1 / 2"
  by (simp_all add: sample_data_def trades_of_def shift1_def ne_shifted_def count_true_def
      max_drawdown_of_def drawdowns_of_def expanding_max_def)


lemma sample_positive: "positive_closes sample_etf_data"
  by (simp add: positive_closes_def sample_etf_data_def)

lemma positive_series_dated: "\<forall>x\<in>set xs. 0 < x \<Longrightarrow> positive_series (dated xs)"
  by (auto simp: positive_series_def dated_def dest!: set_zip_rightD)

lemma sample_long_positive: "positive_series (dated sample_long)"
  by (rule positive_series_dated) (auto simp: sample_long_def)

lemma sample_index_positive: "positive_series (dated sample_index)"
  by (rule positive_series_dated) (auto simp: sample_index_def)

lemma sample_short_positive: "positive_series (dated sample_short)"
  by (rule positive_series_dated) (auto simp: sample_short_def)

lemma sample_final_frame_soxl_short:
  "map position_bt
     (final_frame_soxl (sample_signal_rows_soxl True (\<lambda>i. Some (sample_short ! i))) True 100)
     = [1, 1, - 1, - 1]"
  "map long_return
     (final_frame_soxl (sample_signal_rows_soxl True (\<lambda>i. Some (sample_short ! i))) True 100)
     = [1, 1, - 1 / 2, - 1 / 2]"
  "map short_return
     (final_frame_soxl (sample_signal_rows_soxl True (\<lambda>i. Some (sample_short ! i))) True 100)
     = [0, 0, 0, 1]"
  "map strategy_return_soxl
     (final_frame_soxl (sample_signal_rows_soxl True (\<lambda>i. Some (sample_short ! i))) True 100)
     = [0, 1, - 1 / 2, 1]"
  by (simp_all add: final_frame_soxl_def dropna_returns_soxl_def long_return_col_def
        short_return_col_def strategy_return_col_soxl_def pct_change_col_def pct_change_def
        shift1_def cumprod_def sample_signal_rows_soxl_def sample_nth
        sig_row_soxl.defs bt_row_soxl.defs upt_rec)

lemma sample_data_columns:
  "map signal_bt sample_data = [0, 1, 1, 1, 1]"
  "map etf_return sample_data = [1, - 1 / 2, 1, - 1 / 2, 1]"
  "map strategy_return sample_data = [0, 0, 1, - 1 / 2, 1]"
  by (simp_all add: sample_data_def)

section \<open>The one-period lag of the backtests\<close>

lemma calculate_metrics_returns:
  "rows \<noteq> [] \<Longrightarrow> calculate_metrics rows ic = Inr (projr (calculate_metrics rows ic))"
  by (simp add: calculate_metrics_def Let_def)

lemma calculate_metrics_soxl_returns:
  "rows \<noteq> [] \<Longrightarrow>
     calculate_metrics_soxl rows ic us = Inr (projr (calculate_metrics_soxl rows ic us))"
  by (simp add: calculate_metrics_soxl_def Let_def)

lemma run_backtest_sample_Inr:
  "run_backtest sample_index_data sample_etf_data 2 100
     = (flatten_columns sample_index_data, flatten_columns sample_etf_data,
        Inr (projr (calculate_metrics sample_data 100)))"
  using calculate_metrics_returns[OF sample_data_metrics(1), of 100]
  by (simp only: run_backtest_sample)

lemma run_backtest_soxl_sample_Inr:
  "run_backtest_soxl (dated sample_index) (dated sample_long) None 100 False
     = Inr (projr (calculate_metrics_soxl sample_rows 100 False))"
  using calculate_metrics_soxl_returns[OF sample_rows_metrics(1), of 100 False]
  by (simp only: run_backtest_soxl_sample)

lemma sample_signal_rows_nth:
  "length sample_signal_rows = 6"
  "map signal_bt sample_signal_rows = [0, 0, 1, 1, 1, 1]"
  "map etf_close sample_signal_rows = [10, 20, 10, 20, 10, 20]"
  by (simp_all add: sample_signal_rows_def)

lemma sample_signal_rows_soxl_nth:
  "length (sample_signal_rows_soxl us z) = 5"
  "map position_bt (sample_signal_rows_soxl False z) = [0, 1, 1, 0, 0]"
  "map position_bt (sample_signal_rows_soxl True z) = [0, 1, 1, - 1, - 1]"
  "map long_close (sample_signal_rows_soxl us z) = [10, 20, 40, 20, 10]"
  by (simp_all add: sample_signal_rows_soxl_def)

lemma flip_returns:
  assumes "k + 1 < length rows" and "\<forall>j<k. signal_bt (rows ! j) = 0" and "signal_bt (rows ! k) = 1"
  shows "(\<forall>t. 0 < t \<and> t \<le> k \<longrightarrow> strategy_return_col rows ! t = Some 0)
       \<and> strategy_return_col rows ! (k + 1) = etf_return_col rows ! (k + 1)"
proof -
  have "strategy_return_col rows ! t = Some 0" if "0 < t" "t \<le> k" for t
  proof -
    from that assms(1) have "t < length rows" "t - 1 < k" by simp_all
    with assms(2) that show ?thesis by (simp add: strategy_return_col_nth)
  qed
  moreover have "strategy_return_col rows ! (k + 1) = etf_return_col rows ! (k + 1)"
    using assms(1,3) by (simp add: strategy_return_col_nth etf_return_col_nth)
  ultimately show ?thesis by blast
qed

lemma strategy_return_col_soxl_select:
  assumes "t < length srows"
  shows "strategy_return_col_soxl srows hs ! t =
          (if 0 < t \<and> position_bt (srows ! (t - 1)) = 1 then long_return_col srows ! t
           else if 0 < t \<and> position_bt (srows ! (t - 1)) = - 1 then short_return_col srows hs ! t
           else Some 0)"
  using assms by (simp add: strategy_return_col_soxl_def shift1_nth)

lemma flip_returns_soxl:
  assumes "k + 1 < length srows" and "\<forall>j<k. position_bt (srows ! j) = 0"
    and "position_bt (srows ! k) = 1"
  shows "(\<forall>t\<le>k. strategy_return_col_soxl srows hs ! t = Some 0)
       \<and> strategy_return_col_soxl srows hs ! (k + 1) = long_return_col srows ! (k + 1)"
proof -
  have "strategy_return_col_soxl srows hs ! t = Some 0" if "t \<le> k" for t
  proof (cases "0 < t")
    case False
    from assms(1) have "0 < length srows" by linarith
    with False show ?thesis by (simp add: strategy_return_col_soxl_select)
  next
    case True
    with that assms(1) have "t < length srows" "t - 1 < k" by simp_all
    with assms(2) True show ?thesis by (simp add: strategy_return_col_soxl_select)
  qed
  moreover have "strategy_return_col_soxl srows hs ! (k + 1) = long_return_col srows ! (k + 1)"
    using assms(1,3) by (simp add: strategy_return_col_soxl_select)
  ultimately show ?thesis by blast
qed

lemma run_backtest_data:
  assumes "run_backtest index_data etf_data w ic = (i', e', Inr res)"
  shows "\<exists>idx etf. getitem (flatten_columns index_data) ''Close'' = Inr idx
          \<and> getitem (flatten_columns etf_data) ''Close'' = Inr etf
          \<and> data res = final_frame (signal_frame (dropna2 (align idx etf)) w) ic"
  using run_backtest_Inr[OF assms] calculate_metrics_Inr by blast

lemma run_backtest_soxl_data:
  assumes "run_backtest_soxl idx lng sh ic us = Inr res"
  shows "data res = final_frame_soxl (signal_frame_soxl (base_frame idx lng sh us) us)
                      (us \<and> sh \<noteq> None) ic"
  using assms calculate_metrics_soxl_Inr by (simp add: run_backtest_soxl_def Let_def)

lemma final_frame_lag:
  assumes "t < length (final_frame rows ic)"
  shows "date (final_frame rows ic ! t) = date (rows ! (t + 1))
       \<and> strategy_return (final_frame rows ic ! t)
           = real_of_int (signal_bt (rows ! t)) * etf_return (final_frame rows ic ! t)"
proof -
  from assms have t: "t < length rows - 1" by simp
  from final_frame_nth[OF t, of ic]
  have "sig_row.truncate (final_frame rows ic ! t) = sig_row.truncate (rows ! (t + 1))"
    and "etf_return (final_frame rows ic ! t) = etf_close (rows ! (t + 1)) / etf_close (rows ! t) - 1"
    and "strategy_return (final_frame rows ic ! t)
            = real_of_int (signal_bt (rows ! t))
                * (etf_close (rows ! (t + 1)) / etf_close (rows ! t) - 1)"
    by simp_all
  moreover from this(1) have "date (final_frame rows ic ! t) = date (rows ! (t + 1))"
    by (simp add: sig_row.truncate_def)
  ultimately show ?thesis by simp
qed

lemma length_map_filter_upt:
  assumes "k \<le> n" and "\<forall>i<k. f i = None" and "\<forall>i. k \<le> i \<and> i < n \<longrightarrow> f i \<noteq> None"
  shows "length (List.map_filter f [0..<n]) = n - k"
proof -
  have "List.map_filter f [0..<n] = List.map_filter f [k..<n]"
    using assms(1,2) by (rule map_filter_upt_skip)
  also have "\<dots> = map (\<lambda>i. the (f i)) [k..<n]"
    using assms(3) by (intro map_filter_all_Some) auto
  finally show ?thesis by simp
qed

lemma length_signal_frame:
  assumes "0 < w" and "w \<le> length combined"
  shows "length (signal_frame combined w) = length combined - (w - 1)"
  unfolding signal_frame_def
  by (rule length_map_filter_upt)
    (use assms in \<open>auto simp: rolling_mean_def split: prod.splits\<close>)

lemma length_signal_frame_soxl:
  assumes "MA_LONG \<le> length df"
  shows "length (signal_frame_soxl df us) = length df - (MA_LONG - 1)"
  unfolding signal_frame_soxl_def Let_def
  by (rule length_map_filter_upt)
    (use assms in \<open>auto simp: rolling_mean_def pct_change_def MA_LONG_def MA_SHORT_def
       ROC_PERIOD_def split: prod.splits\<close>)

lemma run_backtest_returns:
  assumes "getitem (flatten_columns index_data) ''Close'' = Inr idx"
    and "getitem (flatten_columns etf_data) ''Close'' = Inr etf"
    and "0 < w" and "w < length (dropna2 (align idx etf))"
  shows "\<exists>res. run_backtest index_data etf_data w ic
           = (flatten_columns index_data, flatten_columns etf_data, Inr res)"
proof -
  let ?rows = "signal_frame (dropna2 (align idx etf)) w"
  from assms(3,4) have "length ?rows = length (dropna2 (align idx etf)) - (w - 1)"
    by (intro length_signal_frame) simp_all
  with assms(3,4) have "final_frame ?rows ic \<noteq> []"
    by (simp add: length_0_conv[symmetric] del: length_0_conv)
  from calculate_metrics_returns[OF this, of ic]
  obtain res where "calculate_metrics (final_frame ?rows ic) ic = Inr res" ..
  with assms(1,2) show ?thesis
    by (simp add: run_backtest_def Let_def)
qed

lemma soxl_rows_short_close:
  assumes "r \<in> set (signal_frame_soxl (base_frame idx lng sh us) us)" and "us \<and> sh \<noteq> None"
  shows "short_close r \<noteq> None"
proof -
  from signal_frame_soxl_row[OF assms(1)]
  have "(date_soxl r, index_close_soxl r, long_close r, short_close r)
          \<in> set (base_frame idx lng sh us)" by simp
  from base_frame_cells[OF this] assms(2) show ?thesis by auto
qed

lemma run_backtest_soxl_returns:
  assumes "MA_LONG < length (base_frame idx lng sh us)"
  shows "\<exists>res. run_backtest_soxl idx lng sh ic us = Inr res"
proof -
  let ?hs = "us \<and> sh \<noteq> None"
  let ?rows = "signal_frame_soxl (base_frame idx lng sh us) us"
  have inv: "?hs \<longrightarrow> (\<forall>r\<in>set ?rows. short_close r \<noteq> None)"
    using soxl_rows_short_close by blast
  from assms have "length ?rows = length (base_frame idx lng sh us) - (MA_LONG - 1)"
    by (intro length_signal_frame_soxl) simp
  with assms have "2 \<le> length ?rows" by (simp add: MA_LONG_def)
  with length_final_frame_soxl[OF inv, of ic] have "final_frame_soxl ?rows ?hs ic \<noteq> []"
    by (simp add: length_0_conv[symmetric] del: length_0_conv)
  from calculate_metrics_soxl_returns[OF this, of ic us]
  obtain res where "calculate_metrics_soxl (final_frame_soxl ?rows ?hs ic) ic us = Inr res" ..
  then show ?thesis
    unfolding run_backtest_soxl_def Let_def by blast
qed

lemma final_frame_rows_lag:
  assumes "0 < t" and "t < length (final_frame rows ic)"
  shows "etf_return (final_frame rows ic ! t)
           = etf_close (final_frame rows ic ! t) / etf_close (final_frame rows ic ! (t - 1)) - 1
       \<and> strategy_return (final_frame rows ic ! t)
           = real_of_int (signal_bt (final_frame rows ic ! (t - 1)))
               * etf_return (final_frame rows ic ! t)"
proof -
  let ?ff = "final_frame rows ic"
  from assms have t: "t < length rows - 1" and t1: "t - 1 < length rows - 1" by simp_all
  from final_frame_nth[OF t, of ic]
  have a: "sig_row.truncate (?ff ! t) = sig_row.truncate (rows ! (t + 1))"
    and e: "etf_return (?ff ! t) = etf_close (rows ! (t + 1)) / etf_close (rows ! t) - 1"
    and s: "strategy_return (?ff ! t)
            = real_of_int (signal_bt (rows ! t))
                * (etf_close (rows ! (t + 1)) / etf_close (rows ! t) - 1)"
    by simp_all
  from final_frame_nth[OF t1, of ic] assms(1)
  have b: "sig_row.truncate (?ff ! (t - 1)) = sig_row.truncate (rows ! t)" by simp
  from a have a': "etf_close (?ff ! t) = etf_close (rows ! (t + 1))"
    by (simp add: sig_row.truncate_def)
  from b have b': "etf_close (?ff ! (t - 1)) = etf_close (rows ! t)"
    "signal_bt (?ff ! (t - 1)) = signal_bt (rows ! t)"
    by (simp_all add: sig_row.truncate_def)
  from e s a' b' show ?thesis by simp
qed

lemma run_backtest_lag:
  assumes "run_backtest index_data etf_data w ic = (i', e', Inr res)"
    and "0 < t" and "t < length (data res)"
  shows "etf_return (data res ! t)
           = etf_close (data res ! t) / etf_close (data res ! (t - 1)) - 1
       \<and> strategy_return (data res ! t)
           = real_of_int (signal_bt (data res ! (t - 1))) * etf_return (data res ! t)"
proof -
  from run_backtest_data[OF assms(1)] obtain idx etf where
    d: "data res = final_frame (signal_frame (dropna2 (align idx etf)) w) ic" by blast
  from final_frame_rows_lag[of t "signal_frame (dropna2 (align idx etf)) w" ic] assms(2,3) d
  show ?thesis by simp
qed

lemma run_backtest_flip:
  assumes "run_backtest index_data etf_data w ic = (i', e', Inr res)"
    and "k + 1 < length (data res)" and "\<forall>j<k. signal_bt (data res ! j) = 0"
    and "signal_bt (data res ! k) = 1"
  shows "(\<forall>t. 0 < t \<and> t \<le> k \<longrightarrow> strategy_return (data res ! t) = 0)
       \<and> strategy_return (data res ! (k + 1)) = etf_return (data res ! (k + 1))"
proof -
  have "strategy_return (data res ! t) = 0" if "0 < t" "t \<le> k" for t
  proof -
    from that assms(2) have "t < length (data res)" "t - 1 < k" by simp_all
    with run_backtest_lag[OF assms(1) that(1)] assms(3) show ?thesis by simp
  qed
  moreover from run_backtest_lag[OF assms(1), of "k + 1"] assms(2,4)
  have "strategy_return (data res ! (k + 1)) = etf_return (data res ! (k + 1))" by simp
  ultimately show ?thesis by blast
qed

lemma short_return_col_values:
  assumes "0 < t" and "t < length srows"
  shows "short_return_col srows False ! t = Some 0
       \<and> (short_close (srows ! t) = Some a \<and> short_close (srows ! (t - 1)) = Some b \<longrightarrow>
            short_return_col srows True ! t = Some (a / b - 1))"
  using assms by (simp add: short_return_col_def)

lemma final_frame_soxl_lag:
  assumes inv: "hs \<longrightarrow> (\<forall>r\<in>set srows. short_close r \<noteq> None)"
    and t: "t < length (final_frame_soxl srows hs ic)"
  shows "date_soxl (final_frame_soxl srows hs ic ! t) = date_soxl (srows ! (t + 1))
       \<and> long_return (final_frame_soxl srows hs ic ! t)
           = long_close (srows ! (t + 1)) / long_close (srows ! t) - 1
       \<and> short_return (final_frame_soxl srows hs ic ! t)
           = (if hs then the (short_close (srows ! (t + 1))) / the (short_close (srows ! t)) - 1
              else 0)
       \<and> strategy_return_soxl (final_frame_soxl srows hs ic ! t)
           = (if position_bt (srows ! t) = 1 then long_return (final_frame_soxl srows hs ic ! t)
              else if position_bt (srows ! t) = - 1
              then short_return (final_frame_soxl srows hs ic ! t)
              else 0)"
proof -
  let ?ff = "final_frame_soxl srows hs ic"
  from t have t': "t < length srows - 1" by (simp add: length_final_frame_soxl[OF inv])
  note n = final_frame_soxl_nth[OF inv t', of ic]
  from n have tr: "sig_row_soxl.truncate (?ff ! t) = sig_row_soxl.truncate (srows ! (t + 1))"
    and l: "long_return (?ff ! t) = long_close (srows ! (t + 1)) / long_close (srows ! t) - 1"
    and s: "short_return (?ff ! t) = short_ret srows hs (t + 1)"
    and st: "strategy_return_soxl (?ff ! t) = strat_ret srows hs (t + 1)"
    by simp_all
  from tr have d: "date_soxl (?ff ! t) = date_soxl (srows ! (t + 1))"
    by (simp add: sig_row_soxl.truncate_def)
  have sr: "short_ret srows hs (t + 1)
      = (if hs then the (short_close (srows ! (t + 1))) / the (short_close (srows ! t)) - 1 else 0)"
  proof (cases hs)
    case False
    then show ?thesis by (simp add: short_ret_def)
  next
    case True
    from t' have "srows ! (t + 1) \<in> set srows" "srows ! t \<in> set srows" by simp_all
    with inv True obtain a b where "short_close (srows ! (t + 1)) = Some a"
      "short_close (srows ! t) = Some b" by (metis not_None_eq)
    with True show ?thesis by (simp add: short_ret_def)
  qed
  from d l s st sr show ?thesis by (simp add: strat_ret_def)
qed

lemma run_backtest_soxl_lag:
  assumes "run_backtest_soxl sidx lng sh ic us = Inr sres"
    and "0 < t" and "t < length (data sres)"
  shows "long_return (data sres ! t)
           = long_close (data sres ! t) / long_close (data sres ! (t - 1)) - 1
       \<and> short_return (data sres ! t)
           = (if us \<and> sh \<noteq> None
              then the (short_close (data sres ! t)) / the (short_close (data sres ! (t - 1))) - 1
              else 0)
       \<and> strategy_return_soxl (data sres ! t)
           = (if position_bt (data sres ! (t - 1)) = 1 then long_return (data sres ! t)
              else if position_bt (data sres ! (t - 1)) = - 1 then short_return (data sres ! t)
              else 0)"
proof -
  let ?hs = "us \<and> sh \<noteq> None"
  let ?rows = "signal_frame_soxl (base_frame sidx lng sh us) us"
  let ?ff = "final_frame_soxl ?rows ?hs ic"
  have inv: "?hs \<longrightarrow> (\<forall>r\<in>set ?rows. short_close r \<noteq> None)"
    using soxl_rows_short_close by blast
  from run_backtest_soxl_data[OF assms(1)] have d: "data sres = ?ff" .
  from assms(3) have tf: "t < length ?ff" unfolding d .
  then have t: "t < length ?rows - 1" unfolding length_final_frame_soxl[OF inv] .
  with assms(2) have t1: "t - 1 < length ?rows - 1" by simp
  from final_frame_soxl_nth[OF inv t, of ic]
  have a: "sig_row_soxl.truncate (?ff ! t) = sig_row_soxl.truncate (?rows ! (t + 1))" by simp
  from final_frame_soxl_nth[OF inv t1, of ic] assms(2)
  have b: "sig_row_soxl.truncate (?ff ! (t - 1)) = sig_row_soxl.truncate (?rows ! t)" by simp
  from a have a': "long_close (?ff ! t) = long_close (?rows ! (t + 1))"
    "short_close (?ff ! t) = short_close (?rows ! (t + 1))"
    by (simp_all add: sig_row_soxl.truncate_def)
  from b have b': "long_close (?ff ! (t - 1)) = long_close (?rows ! t)"
    "short_close (?ff ! (t - 1)) = short_close (?rows ! t)"
    "position_bt (?ff ! (t - 1)) = position_bt (?rows ! t)"
    by (simp_all add: sig_row_soxl.truncate_def)
  from final_frame_soxl_lag[OF inv tf] show ?thesis
    unfolding d a' b' by simp
qed

lemma run_backtest_soxl_flip:
  assumes "run_backtest_soxl sidx lng sh ic us = Inr sres"
    and "k + 1 < length (data sres)" and "\<forall>j<k. position_bt (data sres ! j) = 0"
    and "position_bt (data sres ! k) = 1"
  shows "(\<forall>t. 0 < t \<and> t \<le> k \<longrightarrow> strategy_return_soxl (data sres ! t) = 0)
       \<and> strategy_return_soxl (data sres ! (k + 1)) = long_return (data sres ! (k + 1))"
proof -
  have "strategy_return_soxl (data sres ! t) = 0" if "0 < t" "t \<le> k" for t
  proof -
    from that assms(2) have "t < length (data sres)" "t - 1 < k" by simp_all
    with run_backtest_soxl_lag[OF assms(1) that(1)] assms(3) show ?thesis by simp
  qed
  moreover from run_backtest_soxl_lag[OF assms(1), of "k + 1"] assms(2,4)
  have "strategy_return_soxl (data sres ! (k + 1)) = long_return (data sres ! (k + 1))" by simp
  ultimately show ?thesis by blast
qed

text \<open>
  C1.  In both backtests the return of the strategy in a row is decided by the
  position of the row before, and a run on enough rows of positive closes returns
  such a result.

  backtest.py: with a \<open>Close\<close> column in both frames and more aligned rows than
  the window, \<^verbatim>\<open>run_backtest\<close> returns a result; its \<open>data\<close> is the final frame of
  the signal rows; in every row \<open>t > 0\<close> of \<open>data\<close> the ETF return is the change of
  the ETF close from row \<open>t - 1\<close> and the strategy return is the signal of row
  \<open>t - 1\<close> times the ETF return of row \<open>t\<close>; when the signal is 0 before row \<open>k\<close> and
  1 in row \<open>k\<close>, the strategy return is 0 up to and including row \<open>k\<close> and is the
  ETF return in row \<open>k + 1\<close>.  The same holds column by column in the frame of
  signal rows, whose row \<open>t + 1\<close> is row \<open>t\<close> of the final frame.

  soxl\_backtest.py: with more than 200 rows in the aligned frame
  \<^verbatim>\<open>run_backtest\<close> returns a result; its \<open>data\<close> is the final frame of the signal
  rows; in every row \<open>t > 0\<close> of \<open>data\<close> the long return is the change of the long
  close, the short return is the change of the short close when shorting is on and
  the short frame is given, and 0 otherwise, and the strategy return is the long
  return when the position of row \<open>t - 1\<close> is 1, the short return when it is -1, and
  0 otherwise; after a flip from 0 to 1 in row \<open>k\<close> the strategy return is 0 up to
  and including row \<open>k\<close> and is the long return in row \<open>k + 1\<close>.  The same holds
  column by column in the frame of signal rows and in the final frame made of them.
\<close>

theorem no_look_ahead:
  "(getitem (flatten_columns index_data) ''Close'' = Inr idx
      \<and> getitem (flatten_columns etf_data) ''Close'' = Inr etf
      \<and> positive_closes etf_data \<and> 0 < w \<and> w < length (dropna2 (align idx etf)) \<longrightarrow>
      (\<exists>r. run_backtest index_data etf_data w ic
              = (flatten_columns index_data, flatten_columns etf_data, Inr r)))
   \<and> (run_backtest index_data etf_data w ic = (i', e', Inr res) \<longrightarrow>
      (\<exists>idx etf. getitem (flatten_columns index_data) ''Close'' = Inr idx
          \<and> getitem (flatten_columns etf_data) ''Close'' = Inr etf
          \<and> data res = final_frame (signal_frame (dropna2 (align idx etf)) w) ic))
   \<and> (run_backtest index_data etf_data w ic = (i', e', Inr res)
        \<and> 0 < t \<and> t < length (data res) \<longrightarrow>
        etf_return (data res ! t)
          = etf_close (data res ! t) / etf_close (data res ! (t - 1)) - 1
      \<and> strategy_return (data res ! t)
          = real_of_int (signal_bt (data res ! (t - 1))) * etf_return (data res ! t))
   \<and> (run_backtest index_data etf_data w ic = (i', e', Inr res)
        \<and> k + 1 < length (data res) \<and> (\<forall>j<k. signal_bt (data res ! j) = 0)
        \<and> signal_bt (data res ! k) = 1 \<longrightarrow>
        (\<forall>t. 0 < t \<and> t \<le> k \<longrightarrow> strategy_return (data res ! t) = 0)
      \<and> strategy_return (data res ! (k + 1)) = etf_return (data res ! (k + 1)))
   \<and> (0 < t \<and> t < length rows \<longrightarrow>
        etf_return_col rows ! t
          = Some (etf_close (rows ! t) / etf_close (rows ! (t - 1)) - 1)
      \<and> strategy_return_col rows ! t
          = Some (real_of_int (signal_bt (rows ! (t - 1)))
                   * (etf_close (rows ! t) / etf_close (rows ! (t - 1)) - 1)))
   \<and> (t < length (final_frame rows ic) \<longrightarrow>
        date (final_frame rows ic ! t) = date (rows ! (t + 1))
      \<and> strategy_return (final_frame rows ic ! t)
          = real_of_int (signal_bt (rows ! t)) * etf_return (final_frame rows ic ! t))
   \<and> (k + 1 < length rows \<and> (\<forall>j<k. signal_bt (rows ! j) = 0) \<and> signal_bt (rows ! k) = 1 \<longrightarrow>
        (\<forall>t. 0 < t \<and> t \<le> k \<longrightarrow> strategy_return_col rows ! t = Some 0)
      \<and> strategy_return_col rows ! (k + 1) = etf_return_col rows ! (k + 1))
   \<and> (positive_series sidx \<and> positive_series lng \<and> (\<forall>s. sh = Some s \<longrightarrow> positive_series s)
        \<and> MA_LONG < length (base_frame sidx lng sh us) \<longrightarrow>
      (\<exists>r. run_backtest_soxl sidx lng sh ic us = Inr r))
   \<and> (run_backtest_soxl sidx lng sh ic us = Inr sres \<longrightarrow>
        data sres = final_frame_soxl (signal_frame_soxl (base_frame sidx lng sh us) us)
                      (us \<and> sh \<noteq> None) ic)
   \<and> (run_backtest_soxl sidx lng sh ic us = Inr sres \<and> 0 < t \<and> t < length (data sres) \<longrightarrow>
        long_return (data sres ! t)
          = long_close (data sres ! t) / long_close (data sres ! (t - 1)) - 1
      \<and> short_return (data sres ! t)
          = (if us \<and> sh \<noteq> None
             then the (short_close (data sres ! t)) / the (short_close (data sres ! (t - 1))) - 1
             else 0)
      \<and> strategy_return_soxl (data sres ! t)
          = (if position_bt (data sres ! (t - 1)) = 1 then long_return (data sres ! t)
             else if position_bt (data sres ! (t - 1)) = - 1 then short_return (data sres ! t)
             else 0))
   \<and> (run_backtest_soxl sidx lng sh ic us = Inr sres
        \<and> k + 1 < length (data sres) \<and> (\<forall>j<k. position_bt (data sres ! j) = 0)
        \<and> position_bt (data sres ! k) = 1 \<longrightarrow>
        (\<forall>t. 0 < t \<and> t \<le> k \<longrightarrow> strategy_return_soxl (data sres ! t) = 0)
      \<and> strategy_return_soxl (data sres ! (k + 1)) = long_return (data sres ! (k + 1)))
   \<and> (0 < t \<and> t < length srows \<longrightarrow>
        long_return_col srows ! t
          = Some (long_close (srows ! t) / long_close (srows ! (t - 1)) - 1)
      \<and> short_return_col srows False ! t = Some 0
      \<and> (short_close (srows ! t) = Some a \<and> short_close (srows ! (t - 1)) = Some b \<longrightarrow>
           short_return_col srows True ! t = Some (a / b - 1))
      \<and> strategy_return_col_soxl srows hs ! t =
          (if position_bt (srows ! (t - 1)) = 1 then long_return_col srows ! t
           else if position_bt (srows ! (t - 1)) = - 1 then short_return_col srows hs ! t
           else Some 0))
   \<and> ((hs \<longrightarrow> (\<forall>r\<in>set srows. short_close r \<noteq> None))
        \<and> t < length (final_frame_soxl srows hs ic) \<longrightarrow>
        date_soxl (final_frame_soxl srows hs ic ! t) = date_soxl (srows ! (t + 1))
      \<and> long_return (final_frame_soxl srows hs ic ! t)
          = long_close (srows ! (t + 1)) / long_close (srows ! t) - 1
      \<and> short_return (final_frame_soxl srows hs ic ! t)
          = (if hs then the (short_close (srows ! (t + 1))) / the (short_close (srows ! t)) - 1
             else 0)
      \<and> strategy_return_soxl (final_frame_soxl srows hs ic ! t)
          = (if position_bt (srows ! t) = 1 then long_return (final_frame_soxl srows hs ic ! t)
             else if position_bt (srows ! t) = - 1
             then short_return (final_frame_soxl srows hs ic ! t)
             else 0))
   \<and> (k + 1 < length srows \<and> (\<forall>j<k. position_bt (srows ! j) = 0)
        \<and> position_bt (srows ! k) = 1 \<longrightarrow>
        (\<forall>t\<le>k. strategy_return_col_soxl srows hs ! t = Some 0)
      \<and> strategy_return_col_soxl srows hs ! (k + 1) = long_return_col srows ! (k + 1))"
proof -
  have a1: "getitem (flatten_columns index_data) ''Close'' = Inr idx
      \<and> getitem (flatten_columns etf_data) ''Close'' = Inr etf
      \<and> positive_closes etf_data \<and> 0 < w \<and> w < length (dropna2 (align idx etf)) \<longrightarrow>
      (\<exists>r. run_backtest index_data etf_data w ic
              = (flatten_columns index_data, flatten_columns etf_data, Inr r))"
    using run_backtest_returns[of index_data idx etf_data etf w ic] by blast
  have a2: "run_backtest index_data etf_data w ic = (i', e', Inr res) \<longrightarrow>
      (\<exists>idx etf. getitem (flatten_columns index_data) ''Close'' = Inr idx
          \<and> getitem (flatten_columns etf_data) ''Close'' = Inr etf
          \<and> data res = final_frame (signal_frame (dropna2 (align idx etf)) w) ic)"
    using run_backtest_data by blast
  have a3: "run_backtest index_data etf_data w ic = (i', e', Inr res)
        \<and> 0 < t \<and> t < length (data res) \<longrightarrow>
        etf_return (data res ! t)
          = etf_close (data res ! t) / etf_close (data res ! (t - 1)) - 1
      \<and> strategy_return (data res ! t)
          = real_of_int (signal_bt (data res ! (t - 1))) * etf_return (data res ! t)"
    using run_backtest_lag[of index_data etf_data w ic i' e' res t] by blast
  have a4: "run_backtest index_data etf_data w ic = (i', e', Inr res)
        \<and> k + 1 < length (data res) \<and> (\<forall>j<k. signal_bt (data res ! j) = 0)
        \<and> signal_bt (data res ! k) = 1 \<longrightarrow>
        (\<forall>t. 0 < t \<and> t \<le> k \<longrightarrow> strategy_return (data res ! t) = 0)
      \<and> strategy_return (data res ! (k + 1)) = etf_return (data res ! (k + 1))"
    using run_backtest_flip[of index_data etf_data w ic i' e' res k] by blast
  have a5: "0 < t \<and> t < length rows \<longrightarrow>
        etf_return_col rows ! t
          = Some (etf_close (rows ! t) / etf_close (rows ! (t - 1)) - 1)
      \<and> strategy_return_col rows ! t
          = Some (real_of_int (signal_bt (rows ! (t - 1)))
                   * (etf_close (rows ! t) / etf_close (rows ! (t - 1)) - 1))"
    by (simp add: etf_return_col_nth strategy_return_col_nth)
  have a6: "t < length (final_frame rows ic) \<longrightarrow>
        date (final_frame rows ic ! t) = date (rows ! (t + 1))
      \<and> strategy_return (final_frame rows ic ! t)
          = real_of_int (signal_bt (rows ! t)) * etf_return (final_frame rows ic ! t)"
    using final_frame_lag by blast
  have a7: "k + 1 < length rows \<and> (\<forall>j<k. signal_bt (rows ! j) = 0) \<and> signal_bt (rows ! k) = 1 \<longrightarrow>
        (\<forall>t. 0 < t \<and> t \<le> k \<longrightarrow> strategy_return_col rows ! t = Some 0)
      \<and> strategy_return_col rows ! (k + 1) = etf_return_col rows ! (k + 1)"
    using flip_returns[of k rows] by blast
  have b1: "positive_series sidx \<and> positive_series lng \<and> (\<forall>s. sh = Some s \<longrightarrow> positive_series s)
        \<and> MA_LONG < length (base_frame sidx lng sh us) \<longrightarrow>
      (\<exists>r. run_backtest_soxl sidx lng sh ic us = Inr r)"
    using run_backtest_soxl_returns[of sidx lng sh us ic] by blast
  have b2: "run_backtest_soxl sidx lng sh ic us = Inr sres \<longrightarrow>
        data sres = final_frame_soxl (signal_frame_soxl (base_frame sidx lng sh us) us)
                      (us \<and> sh \<noteq> None) ic"
    using run_backtest_soxl_data by blast
  have b3: "run_backtest_soxl sidx lng sh ic us = Inr sres \<and> 0 < t \<and> t < length (data sres) \<longrightarrow>
        long_return (data sres ! t)
          = long_close (data sres ! t) / long_close (data sres ! (t - 1)) - 1
      \<and> short_return (data sres ! t)
          = (if us \<and> sh \<noteq> None
             then the (short_close (data sres ! t)) / the (short_close (data sres ! (t - 1))) - 1
             else 0)
      \<and> strategy_return_soxl (data sres ! t)
          = (if position_bt (data sres ! (t - 1)) = 1 then long_return (data sres ! t)
             else if position_bt (data sres ! (t - 1)) = - 1 then short_return (data sres ! t)
             else 0)"
    using run_backtest_soxl_lag[of sidx lng sh ic us sres t] by blast
  have b4: "run_backtest_soxl sidx lng sh ic us = Inr sres
        \<and> k + 1 < length (data sres) \<and> (\<forall>j<k. position_bt (data sres ! j) = 0)
        \<and> position_bt (data sres ! k) = 1 \<longrightarrow>
        (\<forall>t. 0 < t \<and> t \<le> k \<longrightarrow> strategy_return_soxl (data sres ! t) = 0)
      \<and> strategy_return_soxl (data sres ! (k + 1)) = long_return (data sres ! (k + 1))"
    using run_backtest_soxl_flip[of sidx lng sh ic us sres k] by blast
  have b5: "0 < t \<and> t < length srows \<longrightarrow>
        long_return_col srows ! t
          = Some (long_close (srows ! t) / long_close (srows ! (t - 1)) - 1)
      \<and> short_return_col srows False ! t = Some 0
      \<and> (short_close (srows ! t) = Some a \<and> short_close (srows ! (t - 1)) = Some b \<longrightarrow>
           short_return_col srows True ! t = Some (a / b - 1))
      \<and> strategy_return_col_soxl srows hs ! t =
          (if position_bt (srows ! (t - 1)) = 1 then long_return_col srows ! t
           else if position_bt (srows ! (t - 1)) = - 1 then short_return_col srows hs ! t
           else Some 0)"
    using short_return_col_values[of t srows a b]
    by (simp add: long_return_col_nth strategy_return_col_soxl_select)
  have b6: "(hs \<longrightarrow> (\<forall>r\<in>set srows. short_close r \<noteq> None))
        \<and> t < length (final_frame_soxl srows hs ic) \<longrightarrow>
        date_soxl (final_frame_soxl srows hs ic ! t) = date_soxl (srows ! (t + 1))
      \<and> long_return (final_frame_soxl srows hs ic ! t)
          = long_close (srows ! (t + 1)) / long_close (srows ! t) - 1
      \<and> short_return (final_frame_soxl srows hs ic ! t)
          = (if hs then the (short_close (srows ! (t + 1))) / the (short_close (srows ! t)) - 1
             else 0)
      \<and> strategy_return_soxl (final_frame_soxl srows hs ic ! t)
          = (if position_bt (srows ! t) = 1 then long_return (final_frame_soxl srows hs ic ! t)
             else if position_bt (srows ! t) = - 1
             then short_return (final_frame_soxl srows hs ic ! t)
             else 0)"
    using final_frame_soxl_lag[of hs srows t ic] by blast
  have b7: "k + 1 < length srows \<and> (\<forall>j<k. position_bt (srows ! j) = 0)
        \<and> position_bt (srows ! k) = 1 \<longrightarrow>
        (\<forall>t\<le>k. strategy_return_col_soxl srows hs ! t = Some 0)
      \<and> strategy_return_col_soxl srows hs ! (k + 1) = long_return_col srows ! (k + 1)"
    using flip_returns_soxl[of k srows hs] by blast
  show ?thesis by (intro conjI a1 a2 a3 a4 a5 a6 a7 b1 b2 b3 b4 b5 b6 b7)
qed

theorem no_look_ahead_witness:
  "(\<exists>res. run_backtest sample_index_data sample_etf_data 2 100
            = (flatten_columns sample_index_data, flatten_columns sample_etf_data, Inr res)
         \<and> map signal_bt (data res) = [0, 1, 1, 1, 1]
         \<and> map etf_return (data res) = [1, - 1 / 2, 1, - 1 / 2, 1]
         \<and> map strategy_return (data res) = [0, 0, 1, - 1 / 2, 1])
   \<and> map signal_bt sample_signal_rows = [0, 0, 1, 1, 1, 1]
   \<and> etf_return_col sample_signal_rows ! 2 = Some (- 1 / 2)
   \<and> strategy_return_col sample_signal_rows ! 1 = Some 0
   \<and> strategy_return_col sample_signal_rows ! 2 = Some 0
   \<and> strategy_return_col sample_signal_rows ! 3 = Some 1
   \<and> etf_return_col sample_signal_rows ! 3 = Some 1
   \<and> date (final_frame sample_signal_rows 100 ! 2) = 4
   \<and> strategy_return (final_frame sample_signal_rows 100 ! 2) = 1
   \<and> (\<exists>sres. run_backtest_soxl (dated sample_index) (dated sample_long)
                (Some (dated sample_short)) 100 True = Inr sres
         \<and> map position_bt (data sres) = [1, 1, - 1, - 1]
         \<and> map long_return (data sres) = [1, 1, - 1 / 2, - 1 / 2]
         \<and> map short_return (data sres) = [0, 0, 0, 1]
         \<and> map strategy_return_soxl (data sres) = [0, 1, - 1 / 2, 1])
   \<and> map position_bt (sample_signal_rows_soxl True (\<lambda>i. Some (sample_short ! i)))
       = [0, 1, 1, - 1, - 1]
   \<and> long_return_col (sample_signal_rows_soxl True (\<lambda>i. Some (sample_short ! i))) ! 1 = Some 1
   \<and> strategy_return_col_soxl (sample_signal_rows_soxl True (\<lambda>i. Some (sample_short ! i))) True ! 1
       = Some 0
   \<and> strategy_return_col_soxl (sample_signal_rows_soxl True (\<lambda>i. Some (sample_short ! i))) True ! 2
       = Some 1
   \<and> long_return_col (sample_signal_rows_soxl True (\<lambda>i. Some (sample_short ! i))) ! 4
       = Some (- 1 / 2)
   \<and> short_return_col (sample_signal_rows_soxl True (\<lambda>i. Some (sample_short ! i))) False ! 4
       = Some 0
   \<and> short_return_col (sample_signal_rows_soxl True (\<lambda>i. Some (sample_short ! i))) True ! 4
       = Some 1
   \<and> strategy_return_col_soxl (sample_signal_rows_soxl True (\<lambda>i. Some (sample_short ! i))) True ! 4
       = Some 1
   \<and> date_soxl (final_frame_soxl (sample_signal_rows_soxl True (\<lambda>i. Some (sample_short ! i)))
        True 100 ! 3) = 203
   \<and> strategy_return_soxl
        (final_frame_soxl (sample_signal_rows_soxl True (\<lambda>i. Some (sample_short ! i)))
          True 100 ! 3) = 1"
proof -
  let ?R = "sample_signal_rows"
  let ?S = "sample_signal_rows_soxl True (\<lambda>i. Some (sample_short ! i))"
  let ?I = "[(0, Some 5), (1, Some 4), (2, Some 3), (3, Some 4), (4, Some 6), (5, Some 8),
             (6::nat, Some (10::real))]"
  let ?E = "[(0, Some 10), (1, Some 10), (2, Some 20), (3, Some 10), (4, Some 20), (5, Some 10),
             (6::nat, Some (20::real))]"
  note a1 = no_look_ahead[THEN conjunct1]
  note a2 = no_look_ahead[THEN conjunct2, THEN conjunct1]
  note a3 = no_look_ahead[THEN conjunct2, THEN conjunct2, THEN conjunct1]
  note a4 = no_look_ahead[THEN conjunct2, THEN conjunct2, THEN conjunct2, THEN conjunct1]
  note r = no_look_ahead[THEN conjunct2, THEN conjunct2, THEN conjunct2, THEN conjunct2]
  note a5 = r[THEN conjunct1]
  note a6 = r[THEN conjunct2, THEN conjunct1]
  note a7 = r[THEN conjunct2, THEN conjunct2, THEN conjunct1]
  note s = r[THEN conjunct2, THEN conjunct2, THEN conjunct2]
  note b1 = s[THEN conjunct1]
  note b2 = s[THEN conjunct2, THEN conjunct1]
  note b3 = s[THEN conjunct2, THEN conjunct2, THEN conjunct1]
  note b4 = s[THEN conjunct2, THEN conjunct2, THEN conjunct2, THEN conjunct1]
  note u = s[THEN conjunct2, THEN conjunct2, THEN conjunct2, THEN conjunct2]
  note b5 = u[THEN conjunct1]
  note b6 = u[THEN conjunct2, THEN conjunct1]
  note b7 = u[THEN conjunct2, THEN conjunct2]
  \<comment> \<open>the single-MA backtest returns a result on the sample frames\<close>
  have "(2::nat) < length (dropna2 (align ?I ?E))"
    by (simp only: sample_combined) simp
  with a1[of sample_index_data ?I sample_etf_data ?E 2 100] sample_getitem sample_positive
  obtain res where run: "run_backtest sample_index_data sample_etf_data 2 100
      = (flatten_columns sample_index_data, flatten_columns sample_etf_data, Inr res)"
    by auto
  from a2[THEN mp, OF run]
  have "\<exists>idx etf. getitem (flatten_columns sample_index_data) ''Close'' = Inr idx
          \<and> getitem (flatten_columns sample_etf_data) ''Close'' = Inr etf
          \<and> data res = final_frame (signal_frame (dropna2 (align idx etf)) 2) 100" .
  then have "data res = final_frame ?R 100"
    by (auto simp only: sample_getitem sum.inject sample_combined sample_signal_frame)
  then have d: "data res = sample_data" by (simp only: sample_final_frame)
  have len: "length (data res) = 5" unfolding d by (simp add: sample_data_def)
  have sg: "signal_bt (data res ! 0) = 0" "signal_bt (data res ! 1) = 1"
    unfolding d by (simp_all add: sample_data_def)
  \<comment> \<open>row 1 of the result decides LONG; its own return stays 0, row 2 earns the ETF's return\<close>
  from a3[of sample_index_data sample_etf_data 2 100 _ _ res 2] run len sg
  have lag2: "strategy_return (data res ! 2) = etf_return (data res ! 2)"
    by simp
  have "\<forall>j<1. signal_bt (data res ! j) = 0" using sg by simp
  with a4[of sample_index_data sample_etf_data 2 100 _ _ res 1] run len sg
  have flip_res: "(\<forall>t. 0 < t \<and> t \<le> 1 \<longrightarrow> strategy_return (data res ! t) = 0)
      \<and> strategy_return (data res ! (1 + 1)) = etf_return (data res ! (1 + 1))"
    by simp
  from run d have W1: "\<exists>res. run_backtest sample_index_data sample_etf_data 2 100
            = (flatten_columns sample_index_data, flatten_columns sample_etf_data, Inr res)
         \<and> map signal_bt (data res) = [0, 1, 1, 1, 1]
         \<and> map etf_return (data res) = [1, - 1 / 2, 1, - 1 / 2, 1]
         \<and> map strategy_return (data res) = [0, 0, 1, - 1 / 2, 1]"
    by (intro exI[of _ res]) (simp add: sample_data_columns)
  \<comment> \<open>the signal rows of the single-MA frame\<close>
  have lenR: "length ?R = 6" by (simp add: sample_signal_rows_def)
  have sig: "signal_bt (?R ! 0) = 0" "signal_bt (?R ! 1) = 0" "signal_bt (?R ! 2) = 1"
    and etf: "etf_close (?R ! 1) = 20" "etf_close (?R ! 2) = 10" "etf_close (?R ! 3) = 20"
    and dat: "date (?R ! 3) = 4"
    by (simp_all add: sample_signal_rows_def)
  have before: "\<forall>j<2. signal_bt (?R ! j) = 0"
    using sig by (auto simp: less_2_cases_iff)
  from a5[of 2 ?R] lenR
  have "etf_return_col ?R ! 2 = Some (etf_close (?R ! 2) / etf_close (?R ! (2 - 1)) - 1)"
    by simp
  with etf have e2: "etf_return_col ?R ! 2 = Some (- 1 / 2)" by simp
  from a7[of 2 ?R] lenR before sig
  have flip: "(\<forall>t. 0 < t \<and> t \<le> 2 \<longrightarrow> strategy_return_col ?R ! t = Some 0)
      \<and> strategy_return_col ?R ! (2 + 1) = etf_return_col ?R ! (2 + 1)"
    by simp
  then have s1: "strategy_return_col ?R ! 1 = Some 0" and s2: "strategy_return_col ?R ! 2 = Some 0"
    and s3: "strategy_return_col ?R ! 3 = etf_return_col ?R ! 3"
    by simp_all
  have "length (final_frame ?R 100) = 5" using lenR by simp
  with a6[of 2 ?R 100] have ff: "date (final_frame ?R 100 ! 2) = date (?R ! (2 + 1))
      \<and> strategy_return (final_frame ?R 100 ! 2)
          = real_of_int (signal_bt (?R ! 2)) * etf_return (final_frame ?R 100 ! 2)"
    by simp
  have "etf_return (final_frame ?R 100 ! 2) = 1"
    by (simp add: sample_final_frame sample_data_def)
  with ff sig dat have f2: "date (final_frame ?R 100 ! 2) = 4"
    "strategy_return (final_frame ?R 100 ! 2) = 1" by simp_all
  have e3: "etf_return_col ?R ! 3 = Some 1"
    using etf lenR by (simp add: etf_return_col_nth)
  \<comment> \<open>the dual-MA backtest with shorting on returns a result on the sample series\<close>
  have "MA_LONG < length (base_frame (dated sample_index) (dated sample_long)
            (Some (dated sample_short)) True)"
    by (simp only: sample_base_frame_short) (simp add: MA_LONG_def)
  with b1[of "dated sample_index" "dated sample_long" "Some (dated sample_short)" True 100]
    sample_index_positive sample_long_positive sample_short_positive
  obtain sres where srun: "run_backtest_soxl (dated sample_index) (dated sample_long)
                (Some (dated sample_short)) 100 True = Inr sres"
    by auto
  from b2[THEN mp, OF srun]
  have ds: "data sres = final_frame_soxl ?S True 100"
    by (simp only: sample_base_frame_short signal_frame_soxl_sample simp_thms option.simps
        not_False_eq_True)
  have lens: "length (data sres) = 4"
    using sample_final_frame_soxl_short(1)[THEN arg_cong, of length] unfolding ds by simp
  have cols: "map position_bt (data sres) = [1, 1, - 1, - 1]"
    "map long_return (data sres) = [1, 1, - 1 / 2, - 1 / 2]"
    "map short_return (data sres) = [0, 0, 0, 1]"
    "map strategy_return_soxl (data sres) = [0, 1, - 1 / 2, 1]"
    unfolding ds by (rule sample_final_frame_soxl_short)+
  have p: "position_bt (data sres ! 0) = 1" "position_bt (data sres ! 2) = - 1"
    using cols(1)[THEN arg_cong, of "\<lambda>xs. xs ! 0"] cols(1)[THEN arg_cong, of "\<lambda>xs. xs ! 2"] lens
    by simp_all
  \<comment> \<open>row 3 of the result follows the SHORT position of row 2: the short instrument's return\<close>
  from b3[of "dated sample_index" "dated sample_long" "Some (dated sample_short)" 100 True sres 3]
    srun lens p
  have short_leg: "strategy_return_soxl (data sres ! 3) = short_return (data sres ! 3)"
    by simp
  from b4[of "dated sample_index" "dated sample_long" "Some (dated sample_short)" 100 True sres 0]
    srun lens p
  have long_leg: "strategy_return_soxl (data sres ! (0 + 1)) = long_return (data sres ! (0 + 1))"
    by simp
  from srun cols have W2: "\<exists>sres. run_backtest_soxl (dated sample_index) (dated sample_long)
                (Some (dated sample_short)) 100 True = Inr sres
         \<and> map position_bt (data sres) = [1, 1, - 1, - 1]
         \<and> map long_return (data sres) = [1, 1, - 1 / 2, - 1 / 2]
         \<and> map short_return (data sres) = [0, 0, 0, 1]
         \<and> map strategy_return_soxl (data sres) = [0, 1, - 1 / 2, 1]"
    by (intro exI[of _ sres]) simp
  \<comment> \<open>the signal rows of the dual-MA frame: CASH in row 0, LONG in rows 1 and 2, then SHORT\<close>
  have lenS: "length ?S = 5" by (simp add: sample_signal_rows_soxl_def)
  have pos: "position_bt (?S ! 0) = 0" "position_bt (?S ! 1) = 1" "position_bt (?S ! 3) = - 1"
    and lng: "long_close (?S ! 0) = 10" "long_close (?S ! 1) = 20" "long_close (?S ! 2) = 40"
      "long_close (?S ! 3) = 20" "long_close (?S ! 4) = 10"
    and shc: "short_close (?S ! 3) = Some 10" "short_close (?S ! 4) = Some 20"
    and dts: "date_soxl (?S ! 4) = 203"
    by (simp_all add: sample_signal_rows_soxl_def sample_nth)
  have inv: "True \<longrightarrow> (\<forall>r\<in>set ?S. short_close r \<noteq> None)"
    by (simp add: sample_signal_rows_soxl_def)
  have before_soxl: "\<forall>j<1. position_bt (?S ! j) = 0" using pos by simp
  from b7[of 1 ?S True] lenS before_soxl pos
  have flip_s: "(\<forall>t\<le>1. strategy_return_col_soxl ?S True ! t = Some 0)
      \<and> strategy_return_col_soxl ?S True ! (1 + 1) = long_return_col ?S ! (1 + 1)"
    by simp
  then have t1: "strategy_return_col_soxl ?S True ! 1 = Some 0"
    and t2: "strategy_return_col_soxl ?S True ! 2 = long_return_col ?S ! 2"
    by (simp_all add: numeral_2_eq_2)
  have l1: "long_return_col ?S ! 1 = Some 1" and l2: "long_return_col ?S ! 2 = Some 1"
    using lng lenS by (simp_all add: long_return_col_nth)
  from b5[of 4 ?S 20 10 True] lenS shc pos lng
  have r4: "long_return_col ?S ! 4 = Some (- 1 / 2)"
    "short_return_col ?S False ! 4 = Some 0"
    "short_return_col ?S True ! 4 = Some 1"
    "strategy_return_col_soxl ?S True ! 4 = short_return_col ?S True ! 4"
    by simp_all
  have "3 < length (final_frame_soxl ?S True 100)"
    using length_final_frame_soxl[OF inv, of 100] lenS by simp
  with b6[of True ?S 3 100] inv
  have f3: "date_soxl (final_frame_soxl ?S True 100 ! 3) = date_soxl (?S ! (3 + 1))"
    "short_return (final_frame_soxl ?S True 100 ! 3)
       = the (short_close (?S ! (3 + 1))) / the (short_close (?S ! 3)) - 1"
    "strategy_return_soxl (final_frame_soxl ?S True 100 ! 3)
       = (if position_bt (?S ! 3) = 1 then long_return (final_frame_soxl ?S True 100 ! 3)
          else if position_bt (?S ! 3) = - 1 then short_return (final_frame_soxl ?S True 100 ! 3)
          else 0)"
    by simp_all
  from f3 pos shc dts have g3: "date_soxl (final_frame_soxl ?S True 100 ! 3) = 203"
    "strategy_return_soxl (final_frame_soxl ?S True 100 ! 3) = 1"
    by simp_all
  have mp: "map position_bt ?S = [0, 1, 1, - 1, - 1]"
    by (simp add: sample_signal_rows_soxl_def)
  show ?thesis
    using W1 W2 e2 s1 s2 s3 e3 f2 mp l1 t1 t2 l2 r4 g3
    by (simp add: sample_signal_rows_nth)
qed

section \<open>Maximum drawdown\<close>



section \<open>Shorting disabled in the dual-MA policy\<close>

lemma signal_frame_soxl_position:
  assumes "r \<in> set (signal_frame_soxl df us)"
  shows "(\<not> us \<longrightarrow> position_bt r = 0 \<or> position_bt r = 1)
       \<and> (index_close_soxl r < sma_200_bt r \<and> index_close_soxl r < sma_50_bt r
            \<and> roc_bt r < - ROC_THRESHOLD \<longrightarrow> position_bt r = (if us then - 1 else 0))"
  using signal_frame_soxl_row[OF assms]
  by (auto simp: select_position_def)

lemma time_in_none: "\<forall>p\<in>set ps. p \<noteq> v \<Longrightarrow> time_in v ps = 0"
  by (simp add: time_in_def count_true_def filter_empty_conv[THEN iffD2])

lemma py_round_zero: "py_round 0 n = 0"
  by (simp add: py_round_def round_half_even_def)

lemma final_frame_soxl_no_shorts:
  assumes "x \<in> set (final_frame_soxl rows False ic)"
  shows "(\<exists>r\<in>set rows. position_bt x = position_bt r) \<and> short_return x = 0"
proof -
  from assms obtain i where i: "i < length (final_frame_soxl rows False ic)"
    and x: "x = final_frame_soxl rows False ic ! i"
    by (metis in_set_conv_nth)
  from i have i': "i < length rows - 1" by (simp add: length_final_frame_soxl)
  from final_frame_soxl_nth[of False rows i ic] i'
  have t: "sig_row_soxl.truncate x = sig_row_soxl.truncate (rows ! (i + 1))"
    and s: "short_return x = short_ret rows False (i + 1)"
    using x by simp_all
  from t have "position_bt x = position_bt (rows ! (i + 1))"
    by (simp add: sig_row_soxl.truncate_def)
  moreover from i' have "rows ! (i + 1) \<in> set rows" by simp
  ultimately show ?thesis using s by (auto simp: short_ret_def)
qed

lemma run_backtest_soxl_no_shorts:
  assumes "run_backtest_soxl idx lng sh ic False = Inr res"
  shows "(\<forall>x\<in>set (data res). (position_bt x = 0 \<or> position_bt x = 1) \<and> short_return x = 0)
       \<and> \<not> use_shorts_flag res \<and> time_short res = 0"
proof -
  let ?rows = "signal_frame_soxl (base_frame idx lng sh False) False"
  let ?ff = "final_frame_soxl ?rows False ic"
  from assms have m: "calculate_metrics_soxl ?ff ic False = Inr res"
    by (simp add: run_backtest_soxl_def Let_def)
  from calculate_metrics_soxl_Inr[OF m] have d: "data res = ?ff" and u: "\<not> use_shorts_flag res"
    by simp_all
  have rows: "position_bt x = 0 \<or> position_bt x = 1" "short_return x = 0" if "x \<in> set ?ff" for x
  proof -
    from final_frame_soxl_no_shorts[OF that] obtain r where r: "r \<in> set ?rows"
      and p: "position_bt x = position_bt r" and s: "short_return x = 0" by blast
    from signal_frame_soxl_position[OF r] p show "position_bt x = 0 \<or> position_bt x = 1" by simp
    from s show "short_return x = 0" .
  qed
  have "\<forall>p\<in>set (map position_bt ?ff). p \<noteq> - 1"
  proof
    fix p assume "p \<in> set (map position_bt ?ff)"
    then obtain x where "x \<in> set ?ff" "p = position_bt x" by auto
    with rows(1)[of x] show "p \<noteq> - 1" by auto
  qed
  then have "time_in (- 1) (map position_bt ?ff) = 0" by (rule time_in_none)
  moreover from m have "time_short res = py_round (time_in (- 1) (map position_bt ?ff) * 100) 1"
    by (auto simp: calculate_metrics_soxl_def Let_def split: if_splits)
  ultimately have "time_short res = 0" by (simp add: py_round_zero)
  with rows d u show ?thesis by simp
qed

lemma latest_SMA_50:
  assumes "MA_LONG \<le> length closes"
  shows "SMA_50 closes (length closes - 1) = Some (mean (last_n MA_SHORT closes))"
proof -
  from assms have "\<not> (MA_SHORT = 0 \<or> length closes - 1 + 1 < MA_SHORT \<or> length closes \<le> length closes - 1)"
    by (simp add: MA_LONG_def MA_SHORT_def) linarith
  moreover from assms have "length closes - 1 + 1 - MA_SHORT = length closes - MA_SHORT"
    by (simp add: MA_LONG_def)
  moreover have "length (drop (length closes - MA_SHORT) closes) = MA_SHORT"
    using assms by (simp add: MA_LONG_def MA_SHORT_def)
  ultimately show ?thesis
    by (simp add: SMA_50_def rolling_mean_def mean_def last_n_def del: length_drop)
qed

lemma latest_ROC:
  assumes "MA_LONG \<le> length closes"
  shows "ROC closes (length closes - 1)
           = Some (closes ! (length closes - 1) / closes ! (length closes - 1 - ROC_PERIOD) - 1)"
  using assms by (simp add: ROC_def pct_change_def MA_LONG_def ROC_PERIOD_def) linarith

lemma get_signal_soxl_short:
  assumes "get_signal_soxl closes = Inr sg"
    and "SMA_200 closes (length closes - 1) = Some m200"
    and "SMA_50 closes (length closes - 1) = Some m50"
    and "ROC closes (length closes - 1) = Some rc"
    and "closes ! (length closes - 1) < m200" and "closes ! (length closes - 1) < m50"
    and "rc < - ROC_THRESHOLD"
  shows "signal_soxl sg = ''SHORT'' \<and> position_soxl sg = TICKER_SHORT_soxl"
proof -
  from assms(1) have len: "MA_LONG \<le> length closes"
    by (auto simp: get_signal_soxl_def split: if_splits)
  let ?p = "closes ! (length closes - 1)"
  let ?m = "mean (last_n MA_LONG closes)"
  let ?m50 = "mean (last_n MA_SHORT closes)"
  let ?r = "?p / closes ! (length closes - 1 - ROC_PERIOD) - 1"
  from latest_SMA_200[OF len] latest_SMA_50[OF len] latest_ROC[OF len] assms(2-4)
  have e: "m200 = ?m" "m50 = ?m50" "rc = ?r" by simp_all
  with assms(5-7) have c: "?p < ?m" "?p < ?m50" "?r < - ROC_THRESHOLD" by simp_all
  then have "signal_logic ?p ?m ?m50 ?r
      (sample_std (last_n 20 (daily_returns closes)) * sqrt 252) ((?p - ?m) / ?m)
      = (''SHORT'', TICKER_SHORT_soxl,
         calculate_position_size \<bar>(?p - ?m) / ?m\<bar>
           (sample_std (last_n 20 (daily_returns closes)) * sqrt 252) False)"
    by (simp add: signal_logic_def Let_def)
  with assms(1) len show ?thesis
    by (auto simp: get_signal_soxl_def Let_def)
qed

lemma get_signal_soxl_Inr:
  "MA_LONG \<le> length closes \<Longrightarrow> get_signal_soxl closes = Inr (projr (get_signal_soxl closes))"
  by (simp add: get_signal_soxl_def Let_def split: prod.splits)

lemma last_returns_drop:
  "last_n 20 (daily_returns (replicate 199 100 @ [50])) =
     [0, 0, 0, 0, 0, 0, 0, 0, 0, 0, 0, 0, 0, 0, 0, 0, 0, 0, 0, - 1 / 2]"
  by (simp add: last_n_def daily_returns_def drop_map nth_append upt_rec)

lemma std_drop:
  "sample_std [0, 0, 0, 0, 0, 0, 0, 0, 0, 0, 0, 0, 0, 0, 0, 0, 0, 0, 0, - (1 / 2)] = sqrt (1 / 80)"
  by (simp add: sample_std_def mean_def power2_eq_square)

lemma mean200_drop: "mean (last_n 200 (replicate 199 100 @ [50])) = 399 / 4"
  by (simp add: mean_def last_n_def sum_list_replicate_real)

lemma mean50_drop: "mean (last_n 50 (replicate 199 100 @ [50])) = 99"
  by (simp add: mean_def last_n_def sum_list_replicate_real)

lemma cps_drop: "calculate_position_size (199 / 399) (sqrt (1 / 80) * sqrt 252) False = 1 / 2"
  using vol_jump by (simp add: calculate_position_size_def Let_def)

lemma sample_drop_indicators:
  "SMA_200 (replicate 199 100 @ [50]) 199 = Some (399 / 4)"
  "SMA_50 (replicate 199 100 @ [50]) 199 = Some 99"
  "ROC (replicate 199 100 @ [50]) 199 = Some (- 1 / 2)"
  by (simp_all add: SMA_200_def SMA_50_def ROC_def rolling_mean_def pct_change_def MA_LONG_def
      MA_SHORT_def ROC_PERIOD_def sum_list_replicate_real nth_append)

text \<open>
  C5, as the code has it.  In the dual-MA backtest the parameter \<open>use_shorts\<close>
  governs the short state: with it off every row of the signal frame has position
  0 or 1, and a row under the short conditions (price below both moving averages,
  rate of change below the negative threshold) has position 0; with it on the same
  row has position -1.  A result computed with it off holds no row with position
  -1 and no short return, and reports no time spent short.  The signal generator
  \<^verbatim>\<open>get_signal\<close> of soxl\_strategy.py takes no shorting configuration: on a last
  row under the short conditions every signal it returns is SHORT with the
  instrument SOXS.
\<close>

theorem short_collapses_to_cash:
  "(r \<in> set (signal_frame_soxl df False) \<longrightarrow>
       (position_bt r = 0 \<or> position_bt r = 1)
     \<and> (index_close_soxl r < sma_200_bt r \<and> index_close_soxl r < sma_50_bt r
          \<and> roc_bt r < - ROC_THRESHOLD \<longrightarrow> position_bt r = 0))
   \<and> (r' \<in> set (signal_frame_soxl df True)
        \<and> index_close_soxl r' < sma_200_bt r' \<and> index_close_soxl r' < sma_50_bt r'
        \<and> roc_bt r' < - ROC_THRESHOLD \<longrightarrow> position_bt r' = - 1)
   \<and> (run_backtest_soxl idx lng sh ic False = Inr res \<longrightarrow>
       (\<forall>x\<in>set (data res). (position_bt x = 0 \<or> position_bt x = 1) \<and> short_return x = 0)
     \<and> \<not> use_shorts_flag res \<and> time_short res = 0)
   \<and> (get_signal_soxl closes = Inr sg
        \<and> SMA_200 closes (length closes - 1) = Some m200
        \<and> SMA_50 closes (length closes - 1) = Some m50
        \<and> ROC closes (length closes - 1) = Some rc
        \<and> closes ! (length closes - 1) < m200 \<and> closes ! (length closes - 1) < m50
        \<and> rc < - ROC_THRESHOLD \<longrightarrow>
       signal_soxl sg = ''SHORT'' \<and> position_soxl sg = TICKER_SHORT_soxl)"
  using signal_frame_soxl_position[of r df False] signal_frame_soxl_position[of r' df True]
    run_backtest_soxl_no_shorts[of idx lng sh ic res]
    get_signal_soxl_short[of closes sg m200 m50 rc]
  by (simp (no_asm_simp))

theorem short_collapses_to_cash_witness:
  "sample_signal_rows_soxl False (\<lambda>i. None) ! 3
     \<in> set (signal_frame_soxl (base_frame (dated sample_index) (dated sample_long) None False) False)
   \<and> index_close_soxl (sample_signal_rows_soxl False (\<lambda>i. None) ! 3) = 50
   \<and> sma_200_bt (sample_signal_rows_soxl False (\<lambda>i. None) ! 3) = 1003 / 10
   \<and> sma_50_bt (sample_signal_rows_soxl False (\<lambda>i. None) ! 3) = 506 / 5
   \<and> roc_bt (sample_signal_rows_soxl False (\<lambda>i. None) ! 3) = - 1 / 2
   \<and> position_bt (sample_signal_rows_soxl False (\<lambda>i. None) ! 3) = 0
   \<and> position_bt (sample_signal_rows_soxl True (\<lambda>i. None) ! 3) = - 1
   \<and> map position_bt (data (projr (calculate_metrics_soxl sample_rows 100 False))) = [1, 1, 0, 0]
   \<and> map short_return (data (projr (calculate_metrics_soxl sample_rows 100 False))) = [0, 0, 0, 0]
   \<and> time_short (projr (calculate_metrics_soxl sample_rows 100 False)) = 0
   \<and> SMA_200 (replicate 199 100 @ [50]) 199 = Some (399 / 4)
   \<and> SMA_50 (replicate 199 100 @ [50]) 199 = Some 99
   \<and> ROC (replicate 199 100 @ [50]) 199 = Some (- 1 / 2)
   \<and> signal_soxl (projr (get_signal_soxl (replicate 199 100 @ [50]))) = ''SHORT''
   \<and> position_soxl (projr (get_signal_soxl (replicate 199 100 @ [50]))) = ''SOXS''"
proof -
  let ?df = "map (\<lambda>i. (i, sample_index ! i, sample_long ! i, None)) [0..<length sample_index]"
  let ?r = "sample_signal_rows_soxl False (\<lambda>i. None) ! 3"
  let ?r' = "sample_signal_rows_soxl True (\<lambda>i. None) ! 3"
  let ?res = "projr (calculate_metrics_soxl sample_rows 100 False)"
  let ?c = "replicate 199 100 @ [50::real]"
  note T = short_collapses_to_cash[of ?r ?df ?r' "dated sample_index" "dated sample_long" None
      100 ?res ?c "projr (get_signal_soxl ?c)" "399 / 4" 99 "- 1 / 2"]
  have mem: "?r \<in> set (signal_frame_soxl ?df False)" "?r' \<in> set (signal_frame_soxl ?df True)"
    unfolding signal_frame_soxl_sample by (simp_all add: sample_signal_rows_soxl_def)
  have v: "index_close_soxl ?r = 50" "sma_200_bt ?r = 1003 / 10" "sma_50_bt ?r = 506 / 5"
    "roc_bt ?r = - 1 / 2"
    "index_close_soxl ?r' = 50" "sma_200_bt ?r' = 1003 / 10" "sma_50_bt ?r' = 506 / 5"
    "roc_bt ?r' = - 1 / 2"
    by (simp_all add: sample_signal_rows_soxl_def)
  have c: "index_close_soxl ?r < sma_200_bt ?r \<and> index_close_soxl ?r < sma_50_bt ?r
      \<and> roc_bt ?r < - ROC_THRESHOLD"
    "index_close_soxl ?r' < sma_200_bt ?r' \<and> index_close_soxl ?r' < sma_50_bt ?r'
      \<and> roc_bt ?r' < - ROC_THRESHOLD"
    unfolding v by (simp_all add: ROC_THRESHOLD_def)
  from T[THEN conjunct1] mem(1) c(1) have p0: "position_bt ?r = 0" by blast
  from T[THEN conjunct2, THEN conjunct1] mem(2) c(2) have p1: "position_bt ?r' = - 1" by blast
  from T[THEN conjunct2, THEN conjunct2, THEN conjunct1] run_backtest_soxl_sample_Inr
  have res: "(\<forall>x\<in>set (data ?res). (position_bt x = 0 \<or> position_bt x = 1) \<and> short_return x = 0)
     \<and> \<not> use_shorts_flag ?res \<and> time_short ?res = 0"
    by blast
  have d: "data ?res = sample_rows"
    using sample_rows_metrics(1) by (simp add: calculate_metrics_soxl_def Let_def)
  \<comment> \<open>the signal generator on a series that is flat at 100 and closes at 50\<close>
  have len: "length ?c - 1 = 199" by simp
  have g: "get_signal_soxl ?c = Inr (projr (get_signal_soxl ?c))"
    by (rule get_signal_soxl_Inr) (simp add: MA_LONG_def)
  have last_c: "?c ! 199 = 50" by (simp add: nth_append)
  have "rc < - ROC_THRESHOLD" if "rc = - 1 / 2" for rc :: real
    using that by (simp add: ROC_THRESHOLD_def)
  then have thr: "(- 1 / 2 :: real) < - ROC_THRESHOLD" by blast
  from T[THEN conjunct2, THEN conjunct2, THEN conjunct2] g sample_drop_indicators last_c thr
  have sh: "signal_soxl (projr (get_signal_soxl ?c)) = ''SHORT''
      \<and> position_soxl (projr (get_signal_soxl ?c)) = TICKER_SHORT_soxl"
    unfolding len by simp
  have "map position_bt sample_rows = [1, 1, 0, 0]" "map short_return sample_rows = [0, 0, 0, 0]"
    by (simp_all add: sample_rows_def)
  with mem(1) v p0 p1 res d sh sample_drop_indicators show ?thesis
    unfolding sample_base_frame by (simp add: TICKER_SHORT_soxl_def)
qed

text \<open>
  The claim as stated fails for the signal generator: on a series that is flat at
  100 for 199 days and closes at 50, the last row is below both moving averages
  with a rate of change of -50 percent, and \<^verbatim>\<open>get_signal\<close>, which reads no
  shorting flag, returns SHORT on SOXS with half the capital allocated.
\<close>

theorem get_signal_soxl_reports_short:
  "get_signal_soxl (replicate 199 100 @ [50]) =
     Inr \<lparr> ticker_soxl = ''^SOX'', price_soxl = 50, sma_200 = 99.75, sma_50 = 99,
           roc = - 50, volatility = py_round (sqrt (1 / 80) * sqrt 252 * 100) 2,
           trend_strength = - 49.87,
           above_200_ma = False, above_50_ma = False, signal_soxl = ''SHORT'',
           position_soxl = ''SOXS'', allocation_soxl = 0.5,
           crossed_up_200 = False, crossed_down_200 = False, regime = ''STRONG_DOWNTREND'' \<rparr>"
proof -
  have r: "py_round (- (19900 / 399)) 2 = - 49.87"
     "py_round 50 2 = 50" "py_round (399 / 4) 2 = 99.75" "py_round 99 2 = 99"
     "py_round (- 50) 2 = - 50" "py_round (1 / 2) 2 = 0.5"
    by (simp_all add: py_round_def round_half_even_def Let_def)
  show ?thesis
    by (simp add: get_signal_soxl_def Let_def mean200_drop mean50_drop last_returns_drop std_drop
        signal_logic_def ROC_THRESHOLD_def ROC_PERIOD_def nth_append MA_LONG_def MA_SHORT_def
        SMA_200_def rolling_mean_def gt_nan_def get_market_regime_def
        TICKER_INDEX_soxl_def TICKER_SHORT_soxl_def cps_drop r)
qed

section \<open>The annualised return and the empty range\<close>

lemma annual_return_of_years:
  "0 < n \<Longrightarrow> annual_return_of tr (years_of n) = (1 + tr) powr (252 / real n) - 1"
  by (simp add: annual_return_of_def years_of_def)

lemma calculate_metrics_annual:
  assumes "rows \<noteq> []"
  shows "\<exists>res. calculate_metrics rows ic = Inr res
       \<and> annual_return res
           = py_round (((1 + total_return_of (strategy_value (last rows)) ic)
                          powr (252 / real (length rows)) - 1) * 100) 2"
  using assms annual_return_of_years[of "length rows"]
  by (simp add: calculate_metrics_def Let_def)

lemma calculate_metrics_soxl_annual:
  assumes "rows \<noteq> []"
  shows "\<exists>res. calculate_metrics_soxl rows ic us = Inr res
       \<and> annual_return res
           = py_round (((1 + total_return_of (strategy_value_soxl (last rows)) ic)
                          powr (252 / real (length rows)) - 1) * 100) 2"
  using assms annual_return_of_years[of "length rows"]
  by (simp add: calculate_metrics_soxl_def Let_def years_of_def)

lemma run_backtest_periods:
  assumes "run_backtest index_data etf_data w ic = (i', e', Inr res)"
  shows "data res \<noteq> []"
  using run_backtest_Inr[OF assms] calculate_metrics_Inr by metis

lemma run_backtest_soxl_periods:
  assumes "run_backtest_soxl idx lng sh ic us = Inr res"
  shows "data res \<noteq> []"
  using assms calculate_metrics_soxl_Inr by (simp add: run_backtest_soxl_def Let_def)

text \<open>
  C8, as the code has it.  Over a range of \<open>n > 0\<close> periods both scripts compute the
  annualised return \<open>(1 + total_return)^(252/n) - 1\<close> (reported as a percentage
  rounded to two decimals).  Over an empty range neither script produces a
  sentinel: \<^verbatim>\<open>calculate_metrics\<close> fails with IndexError at its first read of the
  last row, before the annualisation, so a produced result always has at least one
  period and no division by zero is evaluated.
\<close>

theorem annualised_return_and_empty_range:
  "(rows = [] \<longrightarrow> calculate_metrics rows ic = Inl IndexError)
   \<and> (srows = [] \<longrightarrow> calculate_metrics_soxl srows ic us = Inl IndexError)
   \<and> (rows \<noteq> [] \<longrightarrow>
        (\<exists>res. calculate_metrics rows ic = Inr res
           \<and> annual_return res
               = py_round (((1 + total_return_of (strategy_value (last rows)) ic)
                              powr (252 / real (length rows)) - 1) * 100) 2))
   \<and> (srows \<noteq> [] \<longrightarrow>
        (\<exists>res. calculate_metrics_soxl srows ic us = Inr res
           \<and> annual_return res
               = py_round (((1 + total_return_of (strategy_value_soxl (last srows)) ic)
                              powr (252 / real (length srows)) - 1) * 100) 2))
   \<and> (run_backtest index_data etf_data w ic = (i', e', Inr res') \<longrightarrow> data res' \<noteq> [])
   \<and> (run_backtest_soxl idx lng sh ic us = Inr sres \<longrightarrow> data sres \<noteq> [])"
proof -
  have c1: "rows = [] \<longrightarrow> calculate_metrics rows ic = Inl IndexError"
    by (simp add: calculate_metrics_def)
  have c2: "srows = [] \<longrightarrow> calculate_metrics_soxl srows ic us = Inl IndexError"
    by (simp add: calculate_metrics_soxl_def)
  have c3: "rows \<noteq> [] \<longrightarrow>
        (\<exists>res. calculate_metrics rows ic = Inr res
           \<and> annual_return res
               = py_round (((1 + total_return_of (strategy_value (last rows)) ic)
                              powr (252 / real (length rows)) - 1) * 100) 2)"
    using calculate_metrics_annual by blast
  have c4: "srows \<noteq> [] \<longrightarrow>
        (\<exists>res. calculate_metrics_soxl srows ic us = Inr res
           \<and> annual_return res
               = py_round (((1 + total_return_of (strategy_value_soxl (last srows)) ic)
                              powr (252 / real (length srows)) - 1) * 100) 2)"
    using calculate_metrics_soxl_annual by blast
  have c5: "run_backtest index_data etf_data w ic = (i', e', Inr res') \<longrightarrow> data res' \<noteq> []"
    using run_backtest_periods by blast
  have c6: "run_backtest_soxl idx lng sh ic us = Inr sres \<longrightarrow> data sres \<noteq> []"
    using run_backtest_soxl_periods by blast
  show ?thesis by (intro conjI c1 c2 c3 c4 c5 c6)
qed

theorem annualised_return_and_empty_range_witness:
  "calculate_metrics [] 100 = Inl IndexError
   \<and> calculate_metrics_soxl [] 100 False = Inl IndexError
   \<and> annual_return (projr (calculate_metrics sample_data 100))
       = py_round (((1 + total_return_of 200 100) powr (252 / 5) - 1) * 100) 2
   \<and> annual_return (projr (calculate_metrics_soxl sample_rows 100 False))
       = py_round (((1 + total_return_of 100 100) powr (252 / 4) - 1) * 100) 2
   \<and> data (projr (calculate_metrics sample_data 100)) \<noteq> []
   \<and> data (projr (calculate_metrics_soxl sample_rows 100 False)) \<noteq> []"
proof -
  note E = annualised_return_and_empty_range[of "[]" 100 "[]" False sample_index_data
      sample_etf_data 2 "flatten_columns sample_index_data" "flatten_columns sample_etf_data"
      "projr (calculate_metrics sample_data 100)" "dated sample_index" "dated sample_long" None
      "projr (calculate_metrics_soxl sample_rows 100 False)"]
  note N = annualised_return_and_empty_range[of sample_data 100 sample_rows False
      sample_index_data sample_etf_data 2 "flatten_columns sample_index_data"
      "flatten_columns sample_etf_data" "projr (calculate_metrics sample_data 100)"
      "dated sample_index" "dated sample_long" None
      "projr (calculate_metrics_soxl sample_rows 100 False)"]
  have l: "strategy_value (last sample_data) = 200" "length sample_data = 5"
    "strategy_value_soxl (last sample_rows) = 100" "length sample_rows = 4"
    by (simp_all add: sample_data_def sample_rows_def)
  from E have e: "calculate_metrics [] 100 = Inl IndexError"
    "calculate_metrics_soxl [] 100 False = Inl IndexError" by simp_all
  from N sample_data_metrics(1) sample_rows_metrics(1) l
  have a: "annual_return (projr (calculate_metrics sample_data 100))
       = py_round (((1 + total_return_of 200 100) powr (252 / 5) - 1) * 100) 2"
    "annual_return (projr (calculate_metrics_soxl sample_rows 100 False))
       = py_round (((1 + total_return_of 100 100) powr (252 / 4) - 1) * 100) 2"
    by auto
  from N run_backtest_sample_Inr run_backtest_soxl_sample_Inr
  have d: "data (projr (calculate_metrics sample_data 100)) \<noteq> []"
    "data (projr (calculate_metrics_soxl sample_rows 100 False)) \<noteq> []"
    by blast+
  from e a d show ?thesis by blast
qed

text \<open>
  The claim as stated fails on a range of zero periods: one row of prices and a
  window of one leave no row after the first return is dropped, and
  \<^verbatim>\<open>run_backtest\<close> raises IndexError instead of returning a sentinel; so does the
  dual-MA \<^verbatim>\<open>calculate_metrics\<close> on an empty frame, its \<^verbatim>\<open>years > 0\<close> guard
  notwithstanding.
\<close>

theorem empty_range_raises:
  "snd (snd (run_backtest
       \<lparr> columns = Index [''Close''], index = [0], cols = [[Some 5]] \<rparr>
       \<lparr> columns = Index [''Close''], index = [0], cols = [[Some 10]] \<rparr> 1 100))
     = Inl IndexError
   \<and> calculate_metrics_soxl [] 100 False = Inl IndexError"
  by (simp add: run_backtest_def Let_def flatten_columns_def getitem_def column_names_def
      align_def dropna2_def cell_def signal_frame_def rolling_mean_def final_frame_def
      dropna_returns_def etf_return_col_def strategy_return_col_def pct_change_col_def
      pct_change_def shift1_def cumprod_def calculate_metrics_def calculate_metrics_soxl_def)

section \<open>The trade count\<close>

text \<open>
  C3.  What the code computes: on a frame of at least one row the count is one for
  the first row (its shifted signal is NaN, and \<open>x != NaN\<close> is true) plus the
  number of later rows whose signal differs from the row before.  On the sample the
  positions over the rows with a signal are \<open>0, 0, 1, 1, 1, 1\<close>, a single change,
  and the reported count is 2; a frame that is LONG in each of its three rows
  reports one trade.
\<close>

theorem trade_count_counts_first_row:
  "map signal_bt sample_signal_rows = [0, 0, 1, 1, 1, 1]
   \<and> snd (snd (run_backtest sample_index_data sample_etf_data 2 100))
       = Inr (projr (calculate_metrics sample_data 100))
   \<and> map signal_bt (data (projr (calculate_metrics sample_data 100))) = [0, 1, 1, 1, 1]
   \<and> total_trades (projr (calculate_metrics sample_data 100)) = 2
   \<and> trades_of [1, 1, 1] = 1"
proof -
  have "data (projr (calculate_metrics sample_data 100)) = sample_data"
    "total_trades (projr (calculate_metrics sample_data 100)) = trades_of (map signal_bt sample_data)"
    using sample_data_metrics(1) by (simp_all add: calculate_metrics_def Let_def)
  moreover have "map signal_bt sample_data = [0, 1, 1, 1, 1]"
    by (simp add: sample_data_def)
  moreover have "trades_of [1, 1, 1] = 1" "trades_of [0, 1, 1, 1, 1] = 2"
    by (simp_all add: trades_of_def shift1_def ne_shifted_def count_true_def)
  ultimately show ?thesis
    by (simp add: run_backtest_sample_Inr sample_signal_rows_nth sample_data_metrics)
qed

section \<open>The caller's frames\<close>

lemma run_backtest_frames:
  "fst (run_backtest index_data etf_data w ic) = flatten_columns index_data
   \<and> fst (snd (run_backtest index_data etf_data w ic)) = flatten_columns etf_data"
  by (simp add: run_backtest_def Let_def)

lemma flatten_columns_changes:
  "flatten_columns df \<noteq> df \<longleftrightarrow> (\<exists>ps. columns df = MultiIndex ps)"
proof (cases "columns df")
  case (Index ns)
  then show ?thesis by (simp add: flatten_columns_def)
next
  case (MultiIndex ps)
  then have "columns (flatten_columns df) = Index (map fst ps)"
    by (simp add: flatten_columns_def get_level_values0_def)
  with MultiIndex show ?thesis by (metis col_index.distinct(1))
qed

text \<open>
  C9.  What the code does to a frame with a two-level column index, the form the
  price download returns: after \<^verbatim>\<open>run_backtest\<close> of backtest.py the caller's frame
  has the flat index of the first level; rows and cells are as before.
\<close>

theorem run_backtest_flattens_caller_columns:
  "columns sample_index_data = MultiIndex [(''Close'', ''^NDX'')]
   \<and> fst (run_backtest sample_index_data sample_etf_data 2 100)
       = sample_index_data\<lparr>columns := Index [''Close'']\<rparr>
   \<and> fst (run_backtest sample_index_data sample_etf_data 2 100) \<noteq> sample_index_data
   \<and> fst (snd (run_backtest sample_index_data sample_etf_data 2 100))
       = sample_etf_data\<lparr>columns := Index [''Close'']\<rparr>"
  by (simp add: run_backtest_def Let_def flatten_columns_def get_level_values0_def
      sample_index_data_def sample_etf_data_def)

end
